theory Spec2Isabelle
  imports Complex_Main
begin

section \<open>JavaScript values\<close>

text \<open>
  The values the handlers pass around. \<open>Num\<close> carries an exact rational in place of a
  double; \<open>NaN\<close> is kept apart because it is falsy and unequal to itself.
\<close>

datatype jsval = Undefined | Null | Str string | Num rat | NaN

fun truthy :: "jsval \<Rightarrow> bool" where
  "truthy Undefined = False"
| "truthy Null = False"
| "truthy (Str s) = (s \<noteq> [])"
| "truthy (Num n) = (n \<noteq> 0)"
| "truthy NaN = False"

text \<open>\<^verbatim>\<open>a || b\<close>\<close>

definition js_or :: "jsval \<Rightarrow> jsval \<Rightarrow> jsval" where
  "js_or a b = (if truthy a then a else b)"

text \<open>\<^verbatim>\<open>a === b\<close>\<close>

definition strict_eq :: "jsval \<Rightarrow> jsval \<Rightarrow> bool" where
  "strict_eq a b = (a = b \<and> a \<noteq> NaN)"

text \<open>A nullable string field of an SDK object, and a property that may be missing.\<close>

definition nullable :: "string option \<Rightarrow> jsval" where
  "nullable x = (case x of None \<Rightarrow> Null | Some s \<Rightarrow> Str s)"

definition optional :: "string option \<Rightarrow> jsval" where
  "optional x = (case x of None \<Rightarrow> Undefined | Some s \<Rightarrow> Str s)"

text \<open>
  An object literal or a sheet row is a map from property names to values; reading a
  property that is not there gives \<open>undefined\<close>.
\<close>

type_synonym obj = "string \<rightharpoonup> jsval"

definition js_get :: "obj \<Rightarrow> string \<Rightarrow> jsval" where
  "js_get r k = (case r k of None \<Rightarrow> Undefined | Some v \<Rightarrow> v)"

subsection \<open>\<^verbatim>\<open>parseInt\<close> and \<^verbatim>\<open>Number.prototype.toString\<close> on integers\<close>

text \<open>
  \<^verbatim>\<open>parseInt\<close> as the handlers use it, on a string or on \<open>undefined\<close>: leading white
  space and a sign are skipped, a \<open>0x\<close> prefix selects radix 16, the longest run of
  digits is read, and no digit at all gives \<open>NaN\<close>.
\<close>

definition is_space :: "char \<Rightarrow> bool" where
  "is_space c = (c \<in> set [CHR '' '', CHR 0x09, CHR 0x0A, CHR 0x0B, CHR 0x0C, CHR 0x0D])"

definition digit_of :: "nat \<Rightarrow> char \<Rightarrow> nat option" where
  "digit_of radix c =
     (let n = (of_char c :: nat);
          d = (if 48 \<le> n \<and> n \<le> 57 then Some (n - 48)
               else if 97 \<le> n \<and> n \<le> 122 then Some (n - 87)
               else if 65 \<le> n \<and> n \<le> 90 then Some (n - 55)
               else None)
      in case d of None \<Rightarrow> None | Some v \<Rightarrow> if v < radix then Some v else None)"

fun digits_value :: "nat \<Rightarrow> nat \<Rightarrow> string \<Rightarrow> nat" where
  "digits_value radix acc [] = acc"
| "digits_value radix acc (c # cs) =
     (case digit_of radix c of
        None \<Rightarrow> acc
      | Some v \<Rightarrow> digits_value radix (acc * radix + v) cs)"

definition parse_digits :: "nat \<Rightarrow> int \<Rightarrow> string \<Rightarrow> jsval" where
  "parse_digits radix sg s =
     (case s of
        [] \<Rightarrow> NaN
      | c # cs \<Rightarrow>
          (case digit_of radix c of
             None \<Rightarrow> NaN
           | Some v \<Rightarrow> Num (of_int (sg * int (digits_value radix 0 s)))))"

definition parseInt :: "jsval \<Rightarrow> jsval" where
  "parseInt v =
     (case v of
        Str s \<Rightarrow>
          (let t = dropWhile is_space s;
               sg = (case t of c # _ \<Rightarrow> if c = CHR ''-'' then - 1 else 1 | [] \<Rightarrow> (1::int));
               u = (case t of c # cs \<Rightarrow> if c = CHR ''-'' \<or> c = CHR ''+'' then cs else t | [] \<Rightarrow> t)
           in case u of
                a # b # rest \<Rightarrow>
                  if a = CHR ''0'' \<and> (b = CHR ''x'' \<or> b = CHR ''X'') then parse_digits 16 sg rest
                  else parse_digits 10 sg u
              | _ \<Rightarrow> parse_digits 10 sg u)
      | _ \<Rightarrow> NaN)"

fun nat_toString :: "nat \<Rightarrow> string" where
  "nat_toString n =
     (if n < 10 then [char_of (48 + n)]
      else nat_toString (n div 10) @ [char_of (48 + n mod 10)])"

declare nat_toString.simps [simp del]

definition int_toString :: "int \<Rightarrow> string" where
  "int_toString i = (if i < 0 then CHR ''-'' # nat_toString (nat (- i)) else nat_toString (nat i))"

section \<open>The collaborators: gateway, sheet, mail transport\<close>

text \<open>
  A Stripe checkout session as the webhook reads it. \<open>metadata\<close> is always an object
  whose values are strings; the other fields are nullable.
\<close>

record session =
  metadata :: "string \<rightharpoonup> string"
  payment_intent :: "string option"
  customer_email :: "string option"
  amount_total :: "int option"

record event =
  event_type :: string
  data_object :: session

text \<open>
  The arguments of \<^verbatim>\<open>checkout.sessions.create\<close> that carry data: the line items (amount
  in pence and quantity), the customer's address and the metadata. Fixed display texts
  (product name and description, currency, redirect URLs) are left out.
\<close>

record line_item =
  unit_amount :: int
  li_quantity :: int

record checkout_params =
  line_items :: "line_item list"
  cp_customer_email :: jsval
  cp_metadata :: obj

text \<open>What \<^verbatim>\<open>checkout.sessions.create\<close> returns, as far as the handlers read it.\<close>

record created_session =
  cs_id :: string
  cs_url :: string
  cs_amount_total :: "int option"

text \<open>
  The message handed to \<^verbatim>\<open>transporter.sendMail\<close>: its recipient, which of the two fixed
  templates was rendered, and the data object the template was filled from. Subject and
  HTML are a function of the template and of that object alone.
\<close>

record mail =
  mail_to :: jsval
  mail_template :: string
  mail_data :: obj

text \<open>One entry per call that leaves the process, in the order the calls are made.\<close>

datatype call =
    SessionsCreate checkout_params
  | PaymentIntentsRetrieve "string option"
  | SheetsAdd obj
  | SheetsUpdate jsval "(string \<times> jsval) list"
  | SendMail mail

text \<open>
  Where a call to the sheet throws, when one does: in what comes before a row is written
  (\<^verbatim>\<open>initializeGoogleSheets\<close>, \<^verbatim>\<open>doc.loadInfo\<close>, a missing sheet,
  \<^verbatim>\<open>sheet.getRows\<close>), or in the write itself (\<^verbatim>\<open>row.save\<close>, \<^verbatim>\<open>sheet.addRow\<close>).
\<close>

datatype sheets_failure = ReadFails string | WriteFails string

text \<open>
  Everything a request cannot see in advance: what the SDK calls answer, whether and
  where the sheet throws, whether the mail transport throws (and with which message), the
  secret, the clock and the random suffix.
\<close>

record env =
  constructEvent :: "string \<Rightarrow> string option \<Rightarrow> string option \<Rightarrow> string + event"
  paymentIntents_retrieve :: "string option \<Rightarrow> string + string"
  sessions_create :: "checkout_params \<Rightarrow> string + created_session"
  sheets_error :: "sheets_failure option"
  sendMail_error :: "string option"
  STRIPE_WEBHOOK_SECRET :: "string option"
  Date_now :: string
  Math_random :: string
  toISOString :: string

text \<open>
  The world a request runs in: the rows of the sheet, the calls made so far, and what was
  written with \<^verbatim>\<open>console.error\<close> and \<^verbatim>\<open>console.warn\<close>.
\<close>

record world =
  sheet :: "obj list"
  calls :: "call list"
  stderr :: "string list"

record request =
  raw_body :: string
  stripe_signature :: "string option"

datatype payload =
    Send string
  | JsonError string
  | JsonReceived
  | JsonSession string string "string option"

record response =
  status :: nat
  payload :: payload

section \<open>The sheet adapter\<close>

text \<open>\<^verbatim>\<open>rows.find(...)\<close>: the position of the first row that satisfies the predicate.\<close>

primrec find_row :: "(obj \<Rightarrow> bool) \<Rightarrow> obj list \<Rightarrow> nat option" where
  "find_row P [] = None"
| "find_row P (r # rs) = (if P r then Some 0 else map_option Suc (find_row P rs))"

text \<open>\<^verbatim>\<open>rows.find(r => r.get('order_reference') === orderRef)\<close>\<close>

definition find_order :: "jsval \<Rightarrow> obj list \<Rightarrow> nat option" where
  "find_order orderRef rows = find_row (\<lambda>r. strict_eq (js_get r ''order_reference'') orderRef) rows"

text \<open>\<^verbatim>\<open>for (const [key, value] of Object.entries(updates)) row.set(key, value)\<close>\<close>

definition set_all :: "(string \<times> jsval) list \<Rightarrow> obj \<Rightarrow> obj" where
  "set_all updates r = fold (\<lambda>(k, v) r'. r'(k \<mapsto> v)) updates r"

text \<open>The message a sheet call throws before any row is written, and the one a write throws.\<close>

definition read_failure :: "env \<Rightarrow> string option" where
  "read_failure env =
     (case sheets_error env of Some (ReadFails msg) \<Rightarrow> Some msg | _ \<Rightarrow> None)"

definition write_failure :: "env \<Rightarrow> string option" where
  "write_failure env =
     (case sheets_error env of Some (WriteFails msg) \<Rightarrow> Some msg | _ \<Rightarrow> None)"

text \<open>
  \<^verbatim>\<open>updateGoogleSheets\<close> of the unified server. The rows are read and searched first;
  \<^verbatim>\<open>row.save\<close> is awaited only when a row was found. Whatever throws is logged and
  thrown again, and leaves the sheet as it was. A reference that matches no row is a
  warning, not an error.
\<close>

definition updateGoogleSheets ::
  "env \<Rightarrow> jsval \<Rightarrow> (string \<times> jsval) list \<Rightarrow> world \<Rightarrow> (string + unit) \<times> world" where
  "updateGoogleSheets env orderRef updates w =
     (let w1 = w\<lparr>calls := calls w @ [SheetsUpdate orderRef updates]\<rparr>
      in case read_failure env of
           Some msg \<Rightarrow>
             (Inl msg, w1\<lparr>stderr := stderr w1 @ [''Error updating Google Sheets: '' @ msg]\<rparr>)
         | None \<Rightarrow>
             (case find_order orderRef (sheet w1) of
                Some i \<Rightarrow>
                  (case write_failure env of
                     Some msg \<Rightarrow>
                       (Inl msg,
                        w1\<lparr>stderr := stderr w1 @ [''Error updating Google Sheets: '' @ msg]\<rparr>)
                   | None \<Rightarrow>
                       (Inr (), w1\<lparr>sheet := (sheet w1)[i := set_all updates (sheet w1 ! i)]\<rparr>))
              | None \<Rightarrow>
                  (Inr (), w1\<lparr>stderr := stderr w1 @ [''Order not found in Google Sheets for update'']\<rparr>)))"

text \<open>\<^verbatim>\<open>updateGoogleSheets\<close> of \<^verbatim>\<open>index.js\<close>: the same, without the warning.\<close>

definition updateGoogleSheets_index ::
  "env \<Rightarrow> jsval \<Rightarrow> (string \<times> jsval) list \<Rightarrow> world \<Rightarrow> (string + unit) \<times> world" where
  "updateGoogleSheets_index env orderRef updates w =
     (let w1 = w\<lparr>calls := calls w @ [SheetsUpdate orderRef updates]\<rparr>
      in case read_failure env of
           Some msg \<Rightarrow>
             (Inl msg, w1\<lparr>stderr := stderr w1 @ [''Error updating Google Sheets: '' @ msg]\<rparr>)
         | None \<Rightarrow>
             (case find_order orderRef (sheet w1) of
                Some i \<Rightarrow>
                  (case write_failure env of
                     Some msg \<Rightarrow>
                       (Inl msg,
                        w1\<lparr>stderr := stderr w1 @ [''Error updating Google Sheets: '' @ msg]\<rparr>)
                   | None \<Rightarrow>
                       (Inr (), w1\<lparr>sheet := (sheet w1)[i := set_all updates (sheet w1 ! i)]\<rparr>))
              | None \<Rightarrow> (Inr (), w1)))"

text \<open>The object \<^verbatim>\<open>addToGoogleSheets\<close> gives to \<^verbatim>\<open>sheet.addRow\<close>, with the source's defaults.\<close>

definition addRow_values :: "obj \<Rightarrow> obj" where
  "addRow_values data =
     [''order_reference'' \<mapsto> js_get data ''order_reference'',
      ''customer_name'' \<mapsto> js_get data ''customer_name'',
      ''customer_email'' \<mapsto> js_get data ''customer_email'',
      ''customer_phone'' \<mapsto> js_or (js_get data ''customer_phone'') (Str []),
      ''quantity'' \<mapsto> js_or (js_get data ''quantity'') (Num 1),
      ''amount_total'' \<mapsto> js_get data ''amount_total'',
      ''stripe_session_id'' \<mapsto> js_or (js_get data ''stripe_session_id'') (Str []),
      ''stripe_payment_intent_id'' \<mapsto> js_or (js_get data ''stripe_payment_intent_id'') (Str []),
      ''status'' \<mapsto> js_get data ''status'',
      ''product_type'' \<mapsto> js_or (js_get data ''product_type'') (Str ''ticket''),
      ''shipping_address'' \<mapsto> js_or (js_get data ''shipping_address'') (Str []),
      ''shipping_city'' \<mapsto> js_or (js_get data ''shipping_city'') (Str []),
      ''shipping_postcode'' \<mapsto> js_or (js_get data ''shipping_postcode'') (Str []),
      ''created_at'' \<mapsto> js_get data ''created_at'',
      ''updated_at'' \<mapsto> js_get data ''updated_at'']"

text \<open>
  \<^verbatim>\<open>addToGoogleSheets\<close> (the same in both servers): the row is appended; a failure is
  logged and thrown again.
\<close>

definition addToGoogleSheets :: "env \<Rightarrow> obj \<Rightarrow> world \<Rightarrow> (string + unit) \<times> world" where
  "addToGoogleSheets env data w =
     (let w1 = w\<lparr>calls := calls w @ [SheetsAdd data]\<rparr>
      in case read_failure env of
           Some msg \<Rightarrow>
             (Inl msg, w1\<lparr>stderr := stderr w1 @ [''Error adding to Google Sheets: '' @ msg]\<rparr>)
         | None \<Rightarrow>
             (case write_failure env of
                Some msg \<Rightarrow>
                  (Inl msg,
                   w1\<lparr>stderr := stderr w1 @ [''Error adding to Google Sheets: '' @ msg]\<rparr>)
              | None \<Rightarrow> (Inr (), w1\<lparr>sheet := sheet w1 @ [addRow_values data]\<rparr>)))"

section \<open>The notifier\<close>

text \<open>
  \<^verbatim>\<open>sendConfirmationEmail\<close> of the unified server: a transport failure is logged and
  thrown again.
\<close>

definition sendConfirmationEmail ::
  "env \<Rightarrow> obj \<Rightarrow> string \<Rightarrow> world \<Rightarrow> (string + unit) \<times> world" where
  "sendConfirmationEmail env data ty w =
     (let m = \<lparr>mail_to = js_get data ''email'',
               mail_template = (if ty = ''book'' then ''book'' else ''ticket''),
               mail_data = data\<rparr>;
          w1 = w\<lparr>calls := calls w @ [SendMail m]\<rparr>
      in case sendMail_error env of
           Some msg \<Rightarrow> (Inl msg, w1\<lparr>stderr := stderr w1 @ [''Error sending email: '' @ msg]\<rparr>)
         | None \<Rightarrow> (Inr (), w1))"

text \<open>
  \<^verbatim>\<open>sendConfirmationEmail\<close> of \<^verbatim>\<open>index.js\<close>: a transport failure is logged and
  swallowed.
\<close>

definition sendConfirmationEmail_index ::
  "env \<Rightarrow> obj \<Rightarrow> string \<Rightarrow> world \<Rightarrow> (string + unit) \<times> world" where
  "sendConfirmationEmail_index env data ty w =
     (let m = \<lparr>mail_to = js_get data ''email'',
               mail_template = (if ty = ''book'' then ''book'' else ''ticket''),
               mail_data = data\<rparr>;
          w1 = w\<lparr>calls := calls w @ [SendMail m]\<rparr>
      in case sendMail_error env of
           Some msg \<Rightarrow> (Inr (), w1\<lparr>stderr := stderr w1 @ [''Error sending email: '' @ msg]\<rparr>)
         | None \<Rightarrow> (Inr (), w1))"

section \<open>The webhook handler\<close>

text \<open>\<^verbatim>\<open>session.metadata.productType || 'ticket'\<close>\<close>

definition productType_of :: "session \<Rightarrow> string" where
  "productType_of s =
     (case metadata s ''productType'' of
        None \<Rightarrow> ''ticket''
      | Some t \<Rightarrow> if t = [] then ''ticket'' else t)"

text \<open>The data objects the two branches of the handler give to the notifier.\<close>

definition book_data :: "session \<Rightarrow> obj" where
  "book_data s =
     [''email'' \<mapsto> nullable (customer_email s),
      ''name'' \<mapsto> optional (metadata s ''name''),
      ''orderRef'' \<mapsto> optional (metadata s ''orderRef''),
      ''address'' \<mapsto> optional (metadata s ''address''),
      ''city'' \<mapsto> optional (metadata s ''city''),
      ''postcode'' \<mapsto> optional (metadata s ''postcode''),
      ''quantity'' \<mapsto> parseInt (optional (metadata s ''quantity'')),
      ''amountTotal'' \<mapsto> (case amount_total s of None \<Rightarrow> Null | Some a \<Rightarrow> Num (of_int a))]"

definition book_data_index :: "session \<Rightarrow> obj" where
  "book_data_index s =
     [''email'' \<mapsto> nullable (customer_email s),
      ''name'' \<mapsto> optional (metadata s ''name''),
      ''orderRef'' \<mapsto> optional (metadata s ''orderRef''),
      ''address'' \<mapsto> optional (metadata s ''address''),
      ''city'' \<mapsto> optional (metadata s ''city''),
      ''postcode'' \<mapsto> optional (metadata s ''postcode''),
      ''amountTotal'' \<mapsto> (case amount_total s of None \<Rightarrow> Null | Some a \<Rightarrow> Num (of_int a))]"

definition ticket_data :: "session \<Rightarrow> obj" where
  "ticket_data s =
     [''email'' \<mapsto> nullable (customer_email s),
      ''name'' \<mapsto> optional (metadata s ''name''),
      ''orderRef'' \<mapsto> optional (metadata s ''orderRef''),
      ''quantity'' \<mapsto> optional (metadata s ''quantity'')]"

text \<open>
  The \<^verbatim>\<open>checkout.session.completed\<close> case of the unified server: resolve the payment
  intent (a failed retrieval is a warning and keeps the session's own value), update the
  row, then send the confirmation for the product type.
\<close>

definition checkout_session_completed ::
  "env \<Rightarrow> session \<Rightarrow> world \<Rightarrow> (string + unit) \<times> world" where
  "checkout_session_completed env s w =
     (let productType = productType_of s;
          w1 = w\<lparr>calls := calls w @ [PaymentIntentsRetrieve (payment_intent s)]\<rparr>;
          (paymentIntentId, w2) =
            (case paymentIntents_retrieve env (payment_intent s) of
               Inr pid \<Rightarrow> (Str pid, w1)
             | Inl msg \<Rightarrow>
                 (nullable (payment_intent s),
                  w1\<lparr>stderr := stderr w1 @ [''Could not retrieve payment intent details: '' @ msg]\<rparr>))
      in case updateGoogleSheets env (optional (metadata s ''orderRef''))
                [(''status'', Str ''completed''),
                 (''stripe_payment_intent_id'',
                    js_or (js_or paymentIntentId (nullable (payment_intent s))) (Str [])),
                 (''updated_at'', Str (toISOString env))] w2 of
           (Inl msg, w3) \<Rightarrow> (Inl msg, w3)
         | (Inr u, w3) \<Rightarrow>
             if productType = ''book'' then sendConfirmationEmail env (book_data s) ''book'' w3
             else sendConfirmationEmail env (ticket_data s) ''ticket'' w3)"

text \<open>The same case in \<^verbatim>\<open>index.js\<close>: the session's payment intent is stored as it is.\<close>

definition checkout_session_completed_index ::
  "env \<Rightarrow> session \<Rightarrow> world \<Rightarrow> (string + unit) \<times> world" where
  "checkout_session_completed_index env s w =
     (let productType = productType_of s
      in case updateGoogleSheets_index env (optional (metadata s ''orderRef''))
                [(''status'', Str ''completed''),
                 (''stripe_payment_intent_id'', nullable (payment_intent s)),
                 (''updated_at'', Str (toISOString env))] w of
           (Inl msg, w1) \<Rightarrow> (Inl msg, w1)
         | (Inr u, w1) \<Rightarrow>
             if productType = ''book''
             then sendConfirmationEmail_index env (book_data_index s) ''book'' w1
             else sendConfirmationEmail_index env (ticket_data s) ''ticket'' w1)"

text \<open>The \<^verbatim>\<open>checkout.session.expired\<close> case, the same in both servers but for the adapter.\<close>

definition checkout_session_expired ::
  "env \<Rightarrow> session \<Rightarrow> world \<Rightarrow> (string + unit) \<times> world" where
  "checkout_session_expired env s w =
     updateGoogleSheets env (optional (metadata s ''orderRef''))
       [(''status'', Str ''failed''), (''updated_at'', Str (toISOString env))] w"

definition checkout_session_expired_index ::
  "env \<Rightarrow> session \<Rightarrow> world \<Rightarrow> (string + unit) \<times> world" where
  "checkout_session_expired_index env s w =
     updateGoogleSheets_index env (optional (metadata s ''orderRef''))
       [(''status'', Str ''failed''), (''updated_at'', Str (toISOString env))] w"

text \<open>
  The \<^verbatim>\<open>switch (event.type)\<close> of the handler; an event of any other type is logged
  and ignored.
\<close>

definition handle_event :: "env \<Rightarrow> event \<Rightarrow> world \<Rightarrow> (string + unit) \<times> world" where
  "handle_event env ev w =
     (if event_type ev = ''checkout.session.completed''
      then checkout_session_completed env (data_object ev) w
      else if event_type ev = ''checkout.session.expired''
      then checkout_session_expired env (data_object ev) w
      else (Inr (), w))"

definition handle_event_index :: "env \<Rightarrow> event \<Rightarrow> world \<Rightarrow> (string + unit) \<times> world" where
  "handle_event_index env ev w =
     (if event_type ev = ''checkout.session.completed''
      then checkout_session_completed_index env (data_object ev) w
      else if event_type ev = ''checkout.session.expired''
      then checkout_session_expired_index env (data_object ev) w
      else (Inr (), w))"

text \<open>
  \<^verbatim>\<open>POST /api/webhooks/stripe\<close> of the unified server. The signature is checked first;
  whatever the second \<^verbatim>\<open>try\<close> block throws becomes a 500.
\<close>

definition webhook_stripe :: "env \<Rightarrow> request \<Rightarrow> world \<Rightarrow> response \<times> world" where
  "webhook_stripe env req w =
     (case constructEvent env (raw_body req) (stripe_signature req) (STRIPE_WEBHOOK_SECRET env) of
        Inl msg \<Rightarrow>
          (\<lparr>status = 400, payload = Send (''Webhook Error: '' @ msg)\<rparr>,
           w\<lparr>stderr := stderr w @ [''Webhook error: '' @ msg]\<rparr>)
      | Inr ev \<Rightarrow>
          (case handle_event env ev w of
             (Inr u, w') \<Rightarrow> (\<lparr>status = 200, payload = JsonReceived\<rparr>, w')
           | (Inl msg, w') \<Rightarrow>
               (\<lparr>status = 500, payload = JsonError msg\<rparr>,
                w'\<lparr>stderr := stderr w' @ [''Error processing webhook: '' @ msg]\<rparr>)))"

text \<open>\<^verbatim>\<open>POST /api/webhooks/stripe\<close> of \<^verbatim>\<open>index.js\<close>.\<close>

definition webhook_stripe_index :: "env \<Rightarrow> request \<Rightarrow> world \<Rightarrow> response \<times> world" where
  "webhook_stripe_index env req w =
     (case constructEvent env (raw_body req) (stripe_signature req) (STRIPE_WEBHOOK_SECRET env) of
        Inl msg \<Rightarrow>
          (\<lparr>status = 400, payload = Send (''Webhook Error: '' @ msg)\<rparr>,
           w\<lparr>stderr := stderr w @ [''Webhook error: '' @ msg]\<rparr>)
      | Inr ev \<Rightarrow>
          (case handle_event_index env ev w of
             (Inr u, w') \<Rightarrow> (\<lparr>status = 200, payload = JsonReceived\<rparr>, w')
           | (Inl msg, w') \<Rightarrow>
               (\<lparr>status = 500, payload = JsonError msg\<rparr>,
                w'\<lparr>stderr := stderr w' @ [''Error processing webhook: '' @ msg]\<rparr>)))"

section \<open>Checkout initiation\<close>

text \<open>
  The JSON body of an initiation request, with every field either server reads. A field
  that is absent is \<open>None\<close>; quantities are JSON integers, prices JSON numbers, the rest
  strings.
\<close>

record body =
  quantity :: "int option"
  customerName :: "string option"
  customerEmail :: "string option"
  customerPhone :: "string option"
  productType :: "string option"
  address :: "string option"
  city :: "string option"
  postcode :: "string option"
  name :: "string option"
  email :: "string option"
  phone :: "string option"
  ticketPrice :: "rat option"
  bookPrice :: "rat option"
  shippingPrice :: "rat option"

text \<open>\<^verbatim>\<open>!x\<close> on a string field and on a number field.\<close>

definition missing :: "string option \<Rightarrow> bool" where
  "missing x = (\<not> truthy (optional x))"

definition missing_num :: "rat option \<Rightarrow> bool" where
  "missing_num x = (case x of None \<Rightarrow> True | Some n \<Rightarrow> n = 0)"

definition Math_round :: "rat \<Rightarrow> int" where
  "Math_round x = \<lfloor>x + 1 / 2\<rfloor>"

definition nullable_int :: "int option \<Rightarrow> jsval" where
  "nullable_int x = (case x of None \<Rightarrow> Null | Some a \<Rightarrow> Num (of_int a))"

definition bad_request :: "string \<Rightarrow> world \<Rightarrow> response \<times> world" where
  "bad_request msg w = (\<lparr>status = 400, payload = JsonError msg\<rparr>, w)"

text \<open>
  The \<^verbatim>\<open>catch\<close> block of the initiation handlers; \<open>what\<close> is the handler's own word
  in the log line.
\<close>

definition checkout_failed :: "string \<Rightarrow> string \<Rightarrow> world \<Rightarrow> response \<times> world" where
  "checkout_failed what msg w =
     (\<lparr>status = 500,
       payload = JsonError (if msg = [] then ''Failed to create checkout session'' else msg)\<rparr>,
      w\<lparr>stderr := stderr w @ [''Error creating '' @ what @ '': '' @ msg]\<rparr>)"

text \<open>
  What all five handlers do once the parameters and the row are fixed: create the
  session, and when that succeeded add the pending row made from it.
\<close>

definition create_then_add ::
  "string \<Rightarrow> env \<Rightarrow> checkout_params \<Rightarrow> (created_session \<Rightarrow> obj) \<Rightarrow> string option
     \<Rightarrow> world \<Rightarrow> response \<times> world" where
  "create_then_add what env params row_of ref w =
     (let w1 = w\<lparr>calls := calls w @ [SessionsCreate params]\<rparr>
      in case sessions_create env params of
           Inl msg \<Rightarrow> checkout_failed what msg w1
         | Inr cs \<Rightarrow>
             (case addToGoogleSheets env (row_of cs) w1 of
                (Inl msg, w2) \<Rightarrow> checkout_failed what msg w2
              | (Inr u, w2) \<Rightarrow>
                  (\<lparr>status = 200, payload = JsonSession (cs_url cs) (cs_id cs) ref\<rparr>, w2)))"

subsection \<open>The unified server\<close>

text \<open>The order reference, the session parameters and the row of the unified route.\<close>

definition unified_orderRef :: "env \<Rightarrow> string \<Rightarrow> string" where
  "unified_orderRef env pt =
     (if pt = ''book'' then ''BOOK-'' else ''TIX-'') @ Date_now env @ ''-'' @ Math_random env"

definition productConfig_unit_amount :: "string \<Rightarrow> int" where
  "productConfig_unit_amount pt = (if pt = ''book'' then 1999 else 2500)"

definition unified_metadata :: "env \<Rightarrow> body \<Rightarrow> int \<Rightarrow> string \<Rightarrow> obj" where
  "unified_metadata env b q pt =
     (let base = [''orderRef'' \<mapsto> Str (unified_orderRef env pt),
                  ''name'' \<mapsto> optional (customerName b),
                  ''quantity'' \<mapsto> Str (int_toString q),
                  ''phone'' \<mapsto> js_or (optional (customerPhone b)) (Str []),
                  ''productType'' \<mapsto> Str pt]
      in if pt = ''book''
         then base(''address'' \<mapsto> optional (address b),
                   ''city'' \<mapsto> optional (city b),
                   ''postcode'' \<mapsto> optional (postcode b))
         else base)"

definition unified_params :: "env \<Rightarrow> body \<Rightarrow> int \<Rightarrow> string \<Rightarrow> checkout_params" where
  "unified_params env b q pt =
     \<lparr>line_items = [\<lparr>unit_amount = productConfig_unit_amount pt, li_quantity = q\<rparr>],
      cp_customer_email = optional (customerEmail b),
      cp_metadata = unified_metadata env b q pt\<rparr>"

definition unified_row :: "env \<Rightarrow> body \<Rightarrow> int \<Rightarrow> string \<Rightarrow> created_session \<Rightarrow> obj" where
  "unified_row env b q pt cs =
     [''order_reference'' \<mapsto> Str (unified_orderRef env pt),
      ''customer_name'' \<mapsto> optional (customerName b),
      ''customer_email'' \<mapsto> optional (customerEmail b),
      ''customer_phone'' \<mapsto> js_or (optional (customerPhone b)) (Str []),
      ''quantity'' \<mapsto> Num (of_int q),
      ''amount_total'' \<mapsto> nullable_int (cs_amount_total cs),
      ''stripe_session_id'' \<mapsto> Str (cs_id cs),
      ''stripe_payment_intent_id'' \<mapsto> Str [],
      ''status'' \<mapsto> Str ''pending'',
      ''product_type'' \<mapsto> Str pt,
      ''shipping_address'' \<mapsto> (if pt = ''book'' then optional (address b) else Str []),
      ''shipping_city'' \<mapsto> (if pt = ''book'' then optional (city b) else Str []),
      ''shipping_postcode'' \<mapsto> (if pt = ''book'' then optional (postcode b) else Str []),
      ''created_at'' \<mapsto> Str (toISOString env),
      ''updated_at'' \<mapsto> Str (toISOString env)]"

text \<open>\<^verbatim>\<open>POST /api/create-checkout-session\<close> of the unified server.\<close>

definition create_checkout_session :: "env \<Rightarrow> body \<Rightarrow> world \<Rightarrow> response \<times> world" where
  "create_checkout_session env b w =
     (case quantity b of
        None \<Rightarrow> bad_request ''Invalid quantity'' w
      | Some q \<Rightarrow>
          if q = 0 \<or> q < 1 then bad_request ''Invalid quantity'' w
          else
            (case productType b of
               None \<Rightarrow> bad_request ''Invalid product type. Must be ticket or book'' w
             | Some pt \<Rightarrow>
                 if pt = [] \<or> pt \<notin> set [''ticket'', ''book'']
                 then bad_request ''Invalid product type. Must be ticket or book'' w
                 else if pt = ''book''
                         \<and> (missing (address b) \<or> missing (city b) \<or> missing (postcode b))
                 then bad_request ''Shipping address is required for book orders'' w
                 else create_then_add ''checkout session'' env
                        (unified_params env b q pt) (unified_row env b q pt)
                        (Some (unified_orderRef env pt)) w))"

text \<open>
  \<^verbatim>\<open>POST /api/create-ticket-checkout-session\<close> of the unified server: the same
  reference, parameters and row with the product fixed, written out in the source.
\<close>

definition ticket_params :: "env \<Rightarrow> body \<Rightarrow> int \<Rightarrow> checkout_params" where
  "ticket_params env b q =
     \<lparr>line_items = [\<lparr>unit_amount = 2500, li_quantity = q\<rparr>],
      cp_customer_email = optional (customerEmail b),
      cp_metadata =
        [''orderRef'' \<mapsto> Str (''TIX-'' @ Date_now env @ ''-'' @ Math_random env),
         ''name'' \<mapsto> optional (customerName b),
         ''quantity'' \<mapsto> Str (int_toString q),
         ''phone'' \<mapsto> js_or (optional (customerPhone b)) (Str []),
         ''productType'' \<mapsto> Str ''ticket'']\<rparr>"

definition ticket_row :: "env \<Rightarrow> body \<Rightarrow> int \<Rightarrow> created_session \<Rightarrow> obj" where
  "ticket_row env b q cs =
     [''order_reference'' \<mapsto> Str (''TIX-'' @ Date_now env @ ''-'' @ Math_random env),
      ''customer_name'' \<mapsto> optional (customerName b),
      ''customer_email'' \<mapsto> optional (customerEmail b),
      ''customer_phone'' \<mapsto> js_or (optional (customerPhone b)) (Str []),
      ''quantity'' \<mapsto> Num (of_int q),
      ''amount_total'' \<mapsto> nullable_int (cs_amount_total cs),
      ''stripe_session_id'' \<mapsto> Str (cs_id cs),
      ''stripe_payment_intent_id'' \<mapsto> Str [],
      ''status'' \<mapsto> Str ''pending'',
      ''product_type'' \<mapsto> Str ''ticket'',
      ''shipping_address'' \<mapsto> Str [],
      ''shipping_city'' \<mapsto> Str [],
      ''shipping_postcode'' \<mapsto> Str [],
      ''created_at'' \<mapsto> Str (toISOString env),
      ''updated_at'' \<mapsto> Str (toISOString env)]"

definition create_ticket_checkout_session :: "env \<Rightarrow> body \<Rightarrow> world \<Rightarrow> response \<times> world" where
  "create_ticket_checkout_session env b w =
     (case quantity b of
        None \<Rightarrow> bad_request ''Invalid quantity'' w
      | Some q \<Rightarrow>
          if q = 0 \<or> q < 1 then bad_request ''Invalid quantity'' w
          else create_then_add ''ticket checkout session'' env
                 (ticket_params env b q) (ticket_row env b q)
                 (Some (''TIX-'' @ Date_now env @ ''-'' @ Math_random env)) w)"

text \<open>\<^verbatim>\<open>POST /api/create-book-checkout-session\<close> of the unified server.\<close>

definition book_params :: "env \<Rightarrow> body \<Rightarrow> int \<Rightarrow> checkout_params" where
  "book_params env b q =
     \<lparr>line_items = [\<lparr>unit_amount = 1999, li_quantity = q\<rparr>],
      cp_customer_email = optional (customerEmail b),
      cp_metadata =
        [''orderRef'' \<mapsto> Str (''BOOK-'' @ Date_now env @ ''-'' @ Math_random env),
         ''name'' \<mapsto> optional (customerName b),
         ''quantity'' \<mapsto> Str (int_toString q),
         ''phone'' \<mapsto> js_or (optional (customerPhone b)) (Str []),
         ''address'' \<mapsto> optional (address b),
         ''city'' \<mapsto> optional (city b),
         ''postcode'' \<mapsto> optional (postcode b),
         ''productType'' \<mapsto> Str ''book'']\<rparr>"

definition book_row :: "env \<Rightarrow> body \<Rightarrow> int \<Rightarrow> created_session \<Rightarrow> obj" where
  "book_row env b q cs =
     [''order_reference'' \<mapsto> Str (''BOOK-'' @ Date_now env @ ''-'' @ Math_random env),
      ''customer_name'' \<mapsto> optional (customerName b),
      ''customer_email'' \<mapsto> optional (customerEmail b),
      ''customer_phone'' \<mapsto> js_or (optional (customerPhone b)) (Str []),
      ''quantity'' \<mapsto> Num (of_int q),
      ''amount_total'' \<mapsto> nullable_int (cs_amount_total cs),
      ''stripe_session_id'' \<mapsto> Str (cs_id cs),
      ''stripe_payment_intent_id'' \<mapsto> Str [],
      ''status'' \<mapsto> Str ''pending'',
      ''product_type'' \<mapsto> Str ''book'',
      ''shipping_address'' \<mapsto> optional (address b),
      ''shipping_city'' \<mapsto> optional (city b),
      ''shipping_postcode'' \<mapsto> optional (postcode b),
      ''created_at'' \<mapsto> Str (toISOString env),
      ''updated_at'' \<mapsto> Str (toISOString env)]"

definition create_book_checkout_session :: "env \<Rightarrow> body \<Rightarrow> world \<Rightarrow> response \<times> world" where
  "create_book_checkout_session env b w =
     (case quantity b of
        None \<Rightarrow> bad_request ''Invalid quantity'' w
      | Some q \<Rightarrow>
          if q = 0 \<or> q < 1 then bad_request ''Invalid quantity'' w
          else if missing (address b) \<or> missing (city b) \<or> missing (postcode b)
          then bad_request ''Shipping address is required for book orders'' w
          else create_then_add ''book checkout session'' env
                 (book_params env b q) (book_row env b q)
                 (Some (''BOOK-'' @ Date_now env @ ''-'' @ Math_random env)) w)"

subsection \<open>The server of \<^verbatim>\<open>index.js\<close>\<close>

text \<open>
  \<^verbatim>\<open>POST /api/create-checkout-session\<close> of \<^verbatim>\<open>index.js\<close>: tickets only, with the price
  read from the body. The response carries no order reference.
\<close>

definition index_params :: "env \<Rightarrow> body \<Rightarrow> int \<Rightarrow> rat \<Rightarrow> checkout_params" where
  "index_params env b q price =
     \<lparr>line_items = [\<lparr>unit_amount = Math_round (price * 100), li_quantity = q\<rparr>],
      cp_customer_email = optional (email b),
      cp_metadata =
        [''orderRef'' \<mapsto> Str (''ORDER-'' @ Date_now env @ ''-'' @ Math_random env),
         ''name'' \<mapsto> optional (name b),
         ''phone'' \<mapsto> js_or (optional (phone b)) (Str []),
         ''quantity'' \<mapsto> Num (of_int q)]\<rparr>"

definition index_row :: "env \<Rightarrow> body \<Rightarrow> int \<Rightarrow> rat \<Rightarrow> created_session \<Rightarrow> obj" where
  "index_row env b q price cs =
     [''order_reference'' \<mapsto> Str (''ORDER-'' @ Date_now env @ ''-'' @ Math_random env),
      ''customer_name'' \<mapsto> optional (name b),
      ''customer_email'' \<mapsto> optional (email b),
      ''customer_phone'' \<mapsto> js_or (optional (phone b)) (Str []),
      ''quantity'' \<mapsto> Num (of_int q),
      ''amount_total'' \<mapsto> Num (price * of_int q),
      ''stripe_session_id'' \<mapsto> Str (cs_id cs),
      ''status'' \<mapsto> Str ''pending'',
      ''product_type'' \<mapsto> Str ''ticket'',
      ''created_at'' \<mapsto> Str (toISOString env),
      ''updated_at'' \<mapsto> Str (toISOString env)]"

definition create_checkout_session_index :: "env \<Rightarrow> body \<Rightarrow> world \<Rightarrow> response \<times> world" where
  "create_checkout_session_index env b w =
     (if missing (name b) \<or> missing (email b)
         \<or> missing_num (map_option of_int (quantity b)) \<or> missing_num (ticketPrice b)
      then bad_request ''Missing required fields: name, email, quantity, ticketPrice'' w
      else
        (case (quantity b, ticketPrice b) of
           (Some q, Some price) \<Rightarrow>
             create_then_add ''checkout session'' env
               (index_params env b q price) (index_row env b q price) None w
         | _ \<Rightarrow> bad_request ''Missing required fields: name, email, quantity, ticketPrice'' w))"

text \<open>
  \<^verbatim>\<open>POST /api/create-book-checkout-session\<close> of \<^verbatim>\<open>index.js\<close>: one book and its
  shipping, both prices read from the body.
\<close>

definition index_book_params :: "env \<Rightarrow> body \<Rightarrow> rat \<Rightarrow> rat \<Rightarrow> checkout_params" where
  "index_book_params env b bp sp =
     \<lparr>line_items = [\<lparr>unit_amount = Math_round (bp * 100), li_quantity = 1\<rparr>,
                    \<lparr>unit_amount = Math_round (sp * 100), li_quantity = 1\<rparr>],
      cp_customer_email = optional (email b),
      cp_metadata =
        [''orderRef'' \<mapsto> Str (''BOOK-'' @ Date_now env @ ''-'' @ Math_random env),
         ''name'' \<mapsto> optional (name b),
         ''phone'' \<mapsto> js_or (optional (phone b)) (Str []),
         ''address'' \<mapsto> optional (address b),
         ''city'' \<mapsto> optional (city b),
         ''postcode'' \<mapsto> optional (postcode b),
         ''productType'' \<mapsto> Str ''book'']\<rparr>"

definition index_book_row :: "env \<Rightarrow> body \<Rightarrow> rat \<Rightarrow> rat \<Rightarrow> created_session \<Rightarrow> obj" where
  "index_book_row env b bp sp cs =
     (let totalAmount = bp + sp
      in [''order_reference'' \<mapsto> Str (''BOOK-'' @ Date_now env @ ''-'' @ Math_random env),
          ''customer_name'' \<mapsto> optional (name b),
          ''customer_email'' \<mapsto> optional (email b),
          ''customer_phone'' \<mapsto> js_or (optional (phone b)) (Str []),
          ''quantity'' \<mapsto> Num 1,
          ''amount_total'' \<mapsto> Num totalAmount,
          ''stripe_session_id'' \<mapsto> Str (cs_id cs),
          ''status'' \<mapsto> Str ''pending'',
          ''product_type'' \<mapsto> Str ''book'',
          ''shipping_address'' \<mapsto> optional (address b),
          ''shipping_city'' \<mapsto> optional (city b),
          ''shipping_postcode'' \<mapsto> optional (postcode b),
          ''created_at'' \<mapsto> Str (toISOString env),
          ''updated_at'' \<mapsto> Str (toISOString env)])"

definition create_book_checkout_session_index ::
  "env \<Rightarrow> body \<Rightarrow> world \<Rightarrow> response \<times> world" where
  "create_book_checkout_session_index env b w =
     (if missing (name b) \<or> missing (email b) \<or> missing (address b) \<or> missing (city b)
         \<or> missing (postcode b) \<or> missing_num (bookPrice b) \<or> missing_num (shippingPrice b)
      then bad_request
             ''Missing required fields: name, email, address, city, postcode, bookPrice, shippingPrice'' w
      else
        (case (bookPrice b, shippingPrice b) of
           (Some bp, Some sp) \<Rightarrow>
             create_then_add ''book checkout session'' env
               (index_book_params env b bp sp) (index_book_row env b bp sp)
               None w
         | _ \<Rightarrow>
             bad_request
               ''Missing required fields: name, email, address, city, postcode, bookPrice, shippingPrice'' w))"

section \<open>Observations\<close>

text \<open>The two servers; \<open>Unified\<close> is the one with the single initiation route.\<close>

datatype server = Unified | Index

fun webhook :: "server \<Rightarrow> env \<Rightarrow> request \<Rightarrow> world \<Rightarrow> response \<times> world" where
  "webhook Unified = webhook_stripe"
| "webhook Index = webhook_stripe_index"

abbreviation verify :: "env \<Rightarrow> request \<Rightarrow> string + event" where
  "verify env req \<equiv>
     constructEvent env (raw_body req) (stripe_signature req) (STRIPE_WEBHOOK_SECRET env)"

abbreviation order_ref :: "session \<Rightarrow> jsval" where
  "order_ref s \<equiv> optional (metadata s ''orderRef'')"

abbreviation completed :: string where
  "completed \<equiv> ''checkout.session.completed''"

abbreviation expired :: string where
  "expired \<equiv> ''checkout.session.expired''"

text \<open>The confirmation messages a world has seen handed to the transport.\<close>

definition notifications :: "world \<Rightarrow> mail list" where
  "notifications w = concat (map (\<lambda>c. case c of SendMail m \<Rightarrow> [m] | _ \<Rightarrow> []) (calls w))"

text \<open>The confirmation each server composes for a completed session.\<close>

fun confirmation :: "server \<Rightarrow> session \<Rightarrow> mail" where
  "confirmation Unified s =
     (if productType_of s = ''book''
      then \<lparr>mail_to = nullable (customer_email s), mail_template = ''book'',
             mail_data = book_data s\<rparr>
      else \<lparr>mail_to = nullable (customer_email s), mail_template = ''ticket'',
             mail_data = ticket_data s\<rparr>)"
| "confirmation Index s =
     (if productType_of s = ''book''
      then \<lparr>mail_to = nullable (customer_email s), mail_template = ''book'',
             mail_data = book_data_index s\<rparr>
      else \<lparr>mail_to = nullable (customer_email s), mail_template = ''ticket'',
             mail_data = ticket_data s\<rparr>)"

text \<open>What a successful \<^verbatim>\<open>updateGoogleSheets\<close> leaves in the sheet.\<close>

definition after_update :: "jsval \<Rightarrow> (string \<times> jsval) list \<Rightarrow> obj list \<Rightarrow> obj list" where
  "after_update ref ups rows =
     (case find_order ref rows of None \<Rightarrow> rows | Some i \<Rightarrow> rows[i := set_all ups (rows ! i)])"

text \<open>The value each server writes to \<open>stripe_payment_intent_id\<close> for a completed session.\<close>

fun stored_intent :: "server \<Rightarrow> env \<Rightarrow> session \<Rightarrow> jsval" where
  "stored_intent Unified env s =
     js_or (js_or (case paymentIntents_retrieve env (payment_intent s) of
                     Inr pid \<Rightarrow> Str pid
                   | Inl msg \<Rightarrow> nullable (payment_intent s))
                  (nullable (payment_intent s)))
           (Str [])"
| "stored_intent Index env s = nullable (payment_intent s)"

text \<open>The updates an event asks of the sheet, and how handling it ends.\<close>

definition event_updates :: "server \<Rightarrow> env \<Rightarrow> event \<Rightarrow> (string \<times> jsval) list" where
  "event_updates sv env ev =
     (if event_type ev = completed
      then [(''status'', Str ''completed''),
            (''stripe_payment_intent_id'', stored_intent sv env (data_object ev)),
            (''updated_at'', Str (toISOString env))]
      else if event_type ev = expired
      then [(''status'', Str ''failed''), (''updated_at'', Str (toISOString env))]
      else [])"

text \<open>
  How a call of \<^verbatim>\<open>updateGoogleSheets\<close> ends: a failure before the rows are read always
  throws, a failing write only when a row was found.
\<close>

definition update_outcome :: "env \<Rightarrow> jsval \<Rightarrow> obj list \<Rightarrow> string + unit" where
  "update_outcome env ref rows =
     (case sheets_error env of
        None \<Rightarrow> Inr ()
      | Some (ReadFails msg) \<Rightarrow> Inl msg
      | Some (WriteFails msg) \<Rightarrow>
          (case find_order ref rows of None \<Rightarrow> Inr () | Some i \<Rightarrow> Inl msg))"

definition event_outcome :: "server \<Rightarrow> env \<Rightarrow> event \<Rightarrow> obj list \<Rightarrow> string + unit" where
  "event_outcome sv env ev rows =
     (if event_type ev = completed \<or> event_type ev = expired
      then (case update_outcome env (order_ref (data_object ev)) rows of
              Inl msg \<Rightarrow> Inl msg
            | Inr u \<Rightarrow>
                if event_type ev = completed \<and> sv = Unified
                then (case sendMail_error env of Some msg \<Rightarrow> Inl msg | None \<Rightarrow> Inr ())
                else Inr ())
      else Inr ())"

text \<open>
  Whether a verified event gets as far as its confirmation: it is a completed event and
  the sheet update did not throw.
\<close>

definition confirmation_sent :: "env \<Rightarrow> event \<Rightarrow> obj list \<Rightarrow> bool" where
  "confirmation_sent env ev rows =
     (event_type ev = completed
      \<and> update_outcome env (order_ref (data_object ev)) rows = Inr ())"

section \<open>Sample requests\<close>

text \<open>
  A ticket order for two seats, the session Stripe reports for it, and collaborators that
  answer as in a run without faults: the signature \<open>v1=ok\<close> verifies and the raw body is
  taken for the event type, a payment intent is found under its own id, a created session
  totals its line items.
\<close>

definition sample_session :: session where
  "sample_session =
     \<lparr>metadata = [''orderRef'' \<mapsto> ''TIX-17-k3j9'', ''name'' \<mapsto> ''Alice'',
                  ''quantity'' \<mapsto> ''2'', ''phone'' \<mapsto> [], ''productType'' \<mapsto> ''ticket''],
      payment_intent = Some ''pi_3Q'',
      customer_email = Some ''alice@example.com'',
      amount_total = Some 5000\<rparr>"

definition sample_env :: "session \<Rightarrow> env" where
  "sample_env s =
     \<lparr>constructEvent = (\<lambda>body sig secret.
         if sig = Some ''v1=ok'' then Inr \<lparr>event_type = body, data_object = s\<rparr>
         else Inl ''No signatures found matching the expected signature for payload''),
      paymentIntents_retrieve =
        (\<lambda>p. case p of None \<Rightarrow> Inl ''Missing required param: intent'' | Some i \<Rightarrow> Inr i),
      sessions_create = (\<lambda>params.
         Inr \<lparr>cs_id = ''cs_a1'', cs_url = ''https://checkout.stripe.com/c/pay/cs_a1'',
              cs_amount_total =
                Some (sum_list (map (\<lambda>l. unit_amount l * li_quantity l) (line_items params)))\<rparr>),
      sheets_error = None,
      sendMail_error = None,
      STRIPE_WEBHOOK_SECRET = Some ''whsec'',
      Date_now = ''17'',
      Math_random = ''k3j9'',
      toISOString = ''2026-01-05T10:00:00.000Z''\<rparr>"

definition sample_row :: "string \<Rightarrow> obj" where
  "sample_row st =
     [''order_reference'' \<mapsto> Str ''TIX-17-k3j9'',
      ''customer_email'' \<mapsto> Str ''alice@example.com'',
      ''amount_total'' \<mapsto> Num 5000,
      ''stripe_payment_intent_id'' \<mapsto> Str [],
      ''status'' \<mapsto> Str st]"

text \<open>A sheet of two orders; the second is the sample order, in the given status.\<close>

definition sample_world :: "string \<Rightarrow> world" where
  "sample_world st =
     \<lparr>sheet = [[''order_reference'' \<mapsto> Str ''BOOK-16-aaaa'', ''status'' \<mapsto> Str ''pending''],
               sample_row st],
      calls = [], stderr = []\<rparr>"

definition sample_request :: "string \<Rightarrow> request" where
  "sample_request ty = \<lparr>raw_body = ty, stripe_signature = Some ''v1=ok''\<rparr>"

definition forged_request :: request where
  "forged_request = \<lparr>raw_body = completed, stripe_signature = Some ''v1=bad''\<rparr>"

text \<open>
  The sample session without a payment intent, for an order the sheet does not hold, and
  without an order reference; and a mail transport that is down.
\<close>

definition unpaid_session :: session where
  "unpaid_session = sample_session\<lparr>payment_intent := None\<rparr>"

definition stray_session :: session where
  "stray_session =
     sample_session\<lparr>metadata := (metadata sample_session)(''orderRef'' \<mapsto> ''TIX-99-zzzz'')\<rparr>"

definition anonymous_session :: session where
  "anonymous_session =
     sample_session\<lparr>metadata := (metadata sample_session)(''orderRef'' := None)\<rparr>"

definition mail_down :: "env \<Rightarrow> env" where
  "mail_down env = env\<lparr>sendMail_error := Some ''Connection timeout''\<rparr>"

text \<open>
  A sheet whose writes fail, and the sample sheet after the order's address was changed
  (as \<^verbatim>\<open>PATCH /api/tickets/:orderReference\<close> can).
\<close>

definition writes_down :: "env \<Rightarrow> env" where
  "writes_down env = env\<lparr>sheets_error := Some (WriteFails ''Quota exceeded'')\<rparr>"

definition readdressed_world :: world where
  "readdressed_world =
     \<lparr>sheet = [[''order_reference'' \<mapsto> Str ''BOOK-16-aaaa'', ''status'' \<mapsto> Str ''pending''],
               (sample_row ''pending'')(''customer_email'' \<mapsto> Str ''bob@example.com'')],
      calls = [], stderr = []\<rparr>"

text \<open>The line items of the checkout sessions a world has seen created.\<close>

definition created_line_items :: "world \<Rightarrow> line_item list list" where
  "created_line_items w =
     concat (map (\<lambda>c. case c of SessionsCreate p \<Rightarrow> [line_items p] | _ \<Rightarrow> []) (calls w))"

text \<open>The parameters of the checkout sessions created since an earlier world.\<close>

definition sessions_since :: "world \<Rightarrow> world \<Rightarrow> checkout_params list" where
  "sessions_since w w' =
     concat (map (\<lambda>c. case c of SessionsCreate p \<Rightarrow> [p] | _ \<Rightarrow> [])
               (drop (length (calls w)) (calls w')))"

text \<open>
  An initiation that went through, seen from outside: since \<open>w\<close> exactly one session was
  created, for one line item at the given unit price and quantity, and exactly one row was
  added, pending, whose \<open>amount_total\<close> is the amount the gateway reported for that session.
\<close>

definition initiated_with :: "env \<Rightarrow> int \<Rightarrow> int \<Rightarrow> world \<Rightarrow> world \<Rightarrow> bool" where
  "initiated_with env price q w w' =
     (case drop (length (calls w)) (calls w') of
        [SessionsCreate params, SheetsAdd d] \<Rightarrow>
          line_items params = [\<lparr>unit_amount = price, li_quantity = q\<rparr>]
          \<and> (case sessions_create env params of
                Inl msg \<Rightarrow> False
              | Inr cs \<Rightarrow>
                  sheet w' \<noteq> [] \<and> butlast (sheet w') = sheet w
                  \<and> js_get (last (sheet w')) ''amount_total'' = nullable_int (cs_amount_total cs)
                  \<and> js_get (last (sheet w')) ''status'' = Str ''pending'')
      | _ \<Rightarrow> False)"

text \<open>
  Sample bodies: two tickets for Alice; the same with a shipping address added; a book
  order that lacks the postcode; two tickets at a price of one penny, for \<^verbatim>\<open>index.js\<close>.
\<close>

definition no_body :: body where
  "no_body =
     \<lparr>quantity = None, customerName = None, customerEmail = None, customerPhone = None,
      productType = None, address = None, city = None, postcode = None, name = None,
      email = None, phone = None, ticketPrice = None, bookPrice = None, shippingPrice = None\<rparr>"

definition ticket_body :: body where
  "ticket_body =
     no_body\<lparr>quantity := Some 2, customerName := Some ''Alice'',
             customerEmail := Some ''alice@example.com'', productType := Some ''ticket''\<rparr>"

definition ticket_body_with_shipping :: body where
  "ticket_body_with_shipping =
     ticket_body\<lparr>address := Some ''1 High Street'', city := Some ''Belfast'',
                 postcode := Some ''BT1 1AA''\<rparr>"

definition book_body_without_postcode :: body where
  "book_body_without_postcode =
     no_body\<lparr>quantity := Some 1, customerName := Some ''Alice'',
             customerEmail := Some ''alice@example.com'', productType := Some ''book'',
             address := Some ''1 High Street'', city := Some ''Belfast'',
             name := Some ''Alice'', email := Some ''alice@example.com'',
             bookPrice := Some (1999 / 100), shippingPrice := Some (7 / 2)\<rparr>"

definition penny_body :: body where
  "penny_body =
     no_body\<lparr>quantity := Some 2, name := Some ''Alice'', email := Some ''alice@example.com'',
             ticketPrice := Some (1 / 100)\<rparr>"

definition empty_world :: world where
  "empty_world = \<lparr>sheet = [], calls = [], stderr = []\<rparr>"

section \<open>Facts about the adapters\<close>

lemma find_row_Some: "find_row P rs = Some i \<Longrightarrow> i < length rs \<and> P (rs ! i)"
  by (induction rs arbitrary: i) (auto split: if_splits)


lemma find_order_Nil [simp]: "find_order ref [] = None"
  by (simp add: find_order_def)

lemma notifications_sheet [simp]: "notifications (w\<lparr>sheet := rows\<rparr>) = notifications w"
  by (simp add: notifications_def)

lemma find_order_bound: "find_order ref rs = Some i \<Longrightarrow> i < length rs"
  by (simp add: find_order_def find_row_Some)

lemma after_update_found:
  "find_order ref rows = Some i \<Longrightarrow> after_update ref ups rows = rows[i := set_all ups (rows ! i)]"
  by (simp add: after_update_def)


lemma after_update_nothing: "after_update ref [] rows = rows"
  by (simp add: after_update_def set_all_def split: option.splits)

lemma length_after_update: "length (after_update ref ups rows) = length rows"
  by (simp add: after_update_def split: option.splits)

lemma update_outcome_working [simp]:
  "sheets_error env = None \<Longrightarrow> update_outcome env ref rows = Inr ()"
  by (simp add: update_outcome_def)

lemma failure_simps:
  "read_failure env = None \<and> write_failure env = None \<longleftrightarrow> sheets_error env = None"
  by (auto simp: read_failure_def write_failure_def split: option.splits sheets_failure.splits)

lemma updateGoogleSheets_sheet:
  "sheet (snd (updateGoogleSheets env ref ups w)) =
     (if update_outcome env ref (sheet w) = Inr ()
      then after_update ref ups (sheet w) else sheet w)"
  by (simp add: updateGoogleSheets_def after_update_def update_outcome_def read_failure_def
        write_failure_def Let_def split: option.splits sheets_failure.splits)

lemma updateGoogleSheets_calls:
  "calls (snd (updateGoogleSheets env ref ups w)) = calls w @ [SheetsUpdate ref ups]"
  by (simp add: updateGoogleSheets_def Let_def split: option.splits)

lemma updateGoogleSheets_fst:
  "fst (updateGoogleSheets env ref ups w) = update_outcome env ref (sheet w)"
  by (simp add: updateGoogleSheets_def update_outcome_def read_failure_def
        write_failure_def Let_def split: option.splits sheets_failure.splits)

lemma updateGoogleSheets_index_sheet:
  "sheet (snd (updateGoogleSheets_index env ref ups w)) =
     (if update_outcome env ref (sheet w) = Inr ()
      then after_update ref ups (sheet w) else sheet w)"
  by (simp add: updateGoogleSheets_index_def after_update_def update_outcome_def
        read_failure_def write_failure_def Let_def split: option.splits sheets_failure.splits)

lemma updateGoogleSheets_index_calls:
  "calls (snd (updateGoogleSheets_index env ref ups w)) = calls w @ [SheetsUpdate ref ups]"
  by (simp add: updateGoogleSheets_index_def Let_def split: option.splits)

lemma updateGoogleSheets_index_fst:
  "fst (updateGoogleSheets_index env ref ups w) = update_outcome env ref (sheet w)"
  by (simp add: updateGoogleSheets_index_def update_outcome_def read_failure_def
        write_failure_def Let_def split: option.splits sheets_failure.splits)

lemma sendConfirmationEmail_effect:
  "sheet (snd (sendConfirmationEmail env d ty w)) = sheet w"
  "calls (snd (sendConfirmationEmail env d ty w)) =
     calls w @ [SendMail \<lparr>mail_to = js_get d ''email'',
                          mail_template = (if ty = ''book'' then ''book'' else ''ticket''),
                          mail_data = d\<rparr>]"
  "fst (sendConfirmationEmail env d ty w) =
     (case sendMail_error env of None \<Rightarrow> Inr () | Some msg \<Rightarrow> Inl msg)"
  by (simp_all add: sendConfirmationEmail_def Let_def split: option.splits)

lemma sendConfirmationEmail_index_effect:
  "sheet (snd (sendConfirmationEmail_index env d ty w)) = sheet w"
  "calls (snd (sendConfirmationEmail_index env d ty w)) =
     calls w @ [SendMail \<lparr>mail_to = js_get d ''email'',
                          mail_template = (if ty = ''book'' then ''book'' else ''ticket''),
                          mail_data = d\<rparr>]"
  "fst (sendConfirmationEmail_index env d ty w) = Inr ()"
  by (simp_all add: sendConfirmationEmail_index_def Let_def split: option.splits)

lemma data_email:
  "js_get (book_data s) ''email'' = nullable (customer_email s)"
  "js_get (book_data_index s) ''email'' = nullable (customer_email s)"
  "js_get (ticket_data s) ''email'' = nullable (customer_email s)"
  by (simp_all add: book_data_def book_data_index_def ticket_data_def js_get_def)

section \<open>What a verified event does\<close>

lemma handle_event_sheet:
  "sheet (snd (handle_event env ev w)) =
     (if update_outcome env (order_ref (data_object ev)) (sheet w) = Inr ()
      then after_update (order_ref (data_object ev)) (event_updates Unified env ev) (sheet w)
      else sheet w)"
  by (auto simp: handle_event_def checkout_session_completed_def checkout_session_expired_def
        event_updates_def Let_def split_beta after_update_nothing
        updateGoogleSheets_sheet updateGoogleSheets_fst sendConfirmationEmail_effect
        split: sum.splits option.splits)

lemma handle_event_index_sheet:
  "sheet (snd (handle_event_index env ev w)) =
     (if update_outcome env (order_ref (data_object ev)) (sheet w) = Inr ()
      then after_update (order_ref (data_object ev)) (event_updates Index env ev) (sheet w)
      else sheet w)"
  by (auto simp: handle_event_index_def checkout_session_completed_index_def
        checkout_session_expired_index_def
        event_updates_def Let_def split_beta after_update_nothing
        updateGoogleSheets_index_sheet updateGoogleSheets_index_fst
        sendConfirmationEmail_index_effect
        split: sum.splits option.splits)

lemma handle_event_calls:
  "calls (snd (handle_event env ev w)) =
     calls w
     @ (if event_type ev = completed
        then [PaymentIntentsRetrieve (payment_intent (data_object ev))] else [])
     @ (if event_type ev = completed \<or> event_type ev = expired
        then [SheetsUpdate (order_ref (data_object ev)) (event_updates Unified env ev)] else [])
     @ (if confirmation_sent env ev (sheet w)
        then [SendMail (confirmation Unified (data_object ev))] else [])"
  by (auto simp: handle_event_def checkout_session_completed_def checkout_session_expired_def
        event_updates_def confirmation_sent_def Let_def split_beta data_email
        updateGoogleSheets_calls updateGoogleSheets_fst sendConfirmationEmail_effect
        split: sum.splits option.splits)

lemma handle_event_index_calls:
  "calls (snd (handle_event_index env ev w)) =
     calls w
     @ (if event_type ev = completed \<or> event_type ev = expired
        then [SheetsUpdate (order_ref (data_object ev)) (event_updates Index env ev)] else [])
     @ (if confirmation_sent env ev (sheet w)
        then [SendMail (confirmation Index (data_object ev))] else [])"
  by (auto simp: handle_event_index_def checkout_session_completed_index_def
        checkout_session_expired_index_def
        event_updates_def confirmation_sent_def Let_def split_beta data_email
        updateGoogleSheets_index_calls updateGoogleSheets_index_fst
        sendConfirmationEmail_index_effect
        split: sum.splits option.splits)

lemma handle_event_fst:
  "fst (handle_event env ev w) = event_outcome Unified env ev (sheet w)"
  by (auto simp: handle_event_def checkout_session_completed_def checkout_session_expired_def
        event_outcome_def Let_def split_beta
        updateGoogleSheets_fst sendConfirmationEmail_effect
        split: sum.splits option.splits)

lemma handle_event_index_fst:
  "fst (handle_event_index env ev w) = event_outcome Index env ev (sheet w)"
  by (auto simp: handle_event_index_def checkout_session_completed_index_def
        checkout_session_expired_index_def
        event_outcome_def Let_def split_beta
        updateGoogleSheets_index_fst sendConfirmationEmail_index_effect
        split: sum.splits option.splits)

lemma webhook_sheet:
  "sheet (snd (webhook sv env req w)) =
     (case verify env req of
        Inl msg \<Rightarrow> sheet w
      | Inr ev \<Rightarrow>
          if update_outcome env (order_ref (data_object ev)) (sheet w) = Inr ()
          then after_update (order_ref (data_object ev)) (event_updates sv env ev) (sheet w)
          else sheet w)"
  by (cases sv)
     (simp_all add: webhook_stripe_def webhook_stripe_index_def split_beta
        handle_event_sheet handle_event_index_sheet handle_event_fst handle_event_index_fst
        split: sum.splits)

lemma webhook_calls:
  "calls (snd (webhook sv env req w)) =
     (case verify env req of
        Inl msg \<Rightarrow> calls w
      | Inr ev \<Rightarrow>
          calls w
          @ (if event_type ev = completed \<and> sv = Unified
             then [PaymentIntentsRetrieve (payment_intent (data_object ev))] else [])
          @ (if event_type ev = completed \<or> event_type ev = expired
             then [SheetsUpdate (order_ref (data_object ev)) (event_updates sv env ev)] else [])
          @ (if confirmation_sent env ev (sheet w)
             then [SendMail (confirmation sv (data_object ev))] else []))"
  by (cases sv)
     (simp_all add: webhook_stripe_def webhook_stripe_index_def split_beta
        handle_event_calls handle_event_index_calls handle_event_fst handle_event_index_fst
        split: sum.splits)

lemma webhook_response:
  "fst (webhook sv env req w) =
     (case verify env req of
        Inl msg \<Rightarrow> \<lparr>status = 400, payload = Send (''Webhook Error: '' @ msg)\<rparr>
      | Inr ev \<Rightarrow>
          (case event_outcome sv env ev (sheet w) of
             Inr u \<Rightarrow> \<lparr>status = 200, payload = JsonReceived\<rparr>
           | Inl msg \<Rightarrow> \<lparr>status = 500, payload = JsonError msg\<rparr>))"
  by (cases sv)
     (simp_all add: webhook_stripe_def webhook_stripe_index_def split_beta
        handle_event_fst handle_event_index_fst
        split: sum.splits)

lemma webhook_notifications:
  "notifications (snd (webhook sv env req w)) =
     notifications w
     @ (case verify env req of
          Inl msg \<Rightarrow> []
        | Inr ev \<Rightarrow>
            if confirmation_sent env ev (sheet w)
            then [confirmation sv (data_object ev)] else [])"
  by (simp add: notifications_def webhook_calls split: sum.splits)

lemma confirmation_sent_working [simp]:
  "sheets_error env = None \<Longrightarrow> confirmation_sent env ev rows \<longleftrightarrow> event_type ev = completed"
  by (simp add: confirmation_sent_def)

lemma webhook_ignored:
  assumes "verify env req = Inr ev"
    and "event_type ev \<noteq> completed" and "event_type ev \<noteq> expired"
  shows "webhook sv env req w = (\<lparr>status = 200, payload = JsonReceived\<rparr>, w)"
  using assms
  by (cases sv)
     (simp_all add: webhook_stripe_def webhook_stripe_index_def handle_event_def
        handle_event_index_def)


lemma js_get_completed_row:
  "js_get (set_all (event_updates sv env \<lparr>event_type = completed, data_object = s\<rparr>) r) k =
     (if k = ''updated_at'' then Str (toISOString env)
      else if k = ''stripe_payment_intent_id'' then stored_intent sv env s
      else if k = ''status'' then Str ''completed''
      else js_get r k)"
  by (simp add: event_updates_def set_all_def js_get_def)

lemma js_get_expired_row:
  "js_get (set_all (event_updates sv env \<lparr>event_type = expired, data_object = s\<rparr>) r) k =
     (if k = ''updated_at'' then Str (toISOString env)
      else if k = ''status'' then Str ''failed''
      else js_get r k)"
  by (simp add: event_updates_def set_all_def js_get_def)

lemma js_get_updated_row:
  "js_get (set_all (event_updates sv env ev) r) k =
     (if event_type ev = completed
      then (if k = ''updated_at'' then Str (toISOString env)
            else if k = ''stripe_payment_intent_id'' then stored_intent sv env (data_object ev)
            else if k = ''status'' then Str ''completed''
            else js_get r k)
      else if event_type ev = expired
      then (if k = ''updated_at'' then Str (toISOString env)
            else if k = ''status'' then Str ''failed''
            else js_get r k)
      else js_get r k)"
  by (simp add: event_updates_def set_all_def js_get_def)

lemma webhook_cell:
  assumes "verify env req = Inr ev"
    and "sheets_error env = None"
    and "find_order (order_ref (data_object ev)) (sheet w) = Some i"
  shows "js_get (sheet (snd (webhook sv env req w)) ! j) k =
           (if j = i then js_get (set_all (event_updates sv env ev) (sheet w ! i)) k
            else js_get (sheet w ! j) k)"
  using assms find_order_bound [OF assms(3)]
  by (simp add: webhook_sheet after_update_found)

lemma sample_verify:
  "verify (sample_env s) (sample_request ty) = Inr \<lparr>event_type = ty, data_object = s\<rparr>"
  by (simp add: sample_env_def sample_request_def)

lemma sample_env_simps [simp]:
  "sheets_error (sample_env s) = None"
  "sendMail_error (sample_env s) = None"
  "toISOString (sample_env s) = ''2026-01-05T10:00:00.000Z''"
  "paymentIntents_retrieve (sample_env s) (Some p) = Inr p"
  "paymentIntents_retrieve (sample_env s) None = Inl ''Missing required param: intent''"
  "Date_now (sample_env s) = ''17''"
  "Math_random (sample_env s) = ''k3j9''"
  "sessions_create (sample_env s) params
     = Inr \<lparr>cs_id = ''cs_a1'', cs_url = ''https://checkout.stripe.com/c/pay/cs_a1'',
            cs_amount_total =
              Some (sum_list (map (\<lambda>l. unit_amount l * li_quantity l) (line_items params)))\<rparr>"
  by (simp_all add: sample_env_def)

lemma sample_find:
  "find_order (Str ''TIX-17-k3j9'') (sheet (sample_world st)) = Some 1"
  by (simp add: find_order_def sample_world_def sample_row_def strict_eq_def js_get_def)


lemma sample_world_simps [simp]:
  "length (sheet (sample_world st)) = 2"
  "calls (sample_world st) = []"
  "stderr (sample_world st) = []"
  "notifications (sample_world st) = []"
  "js_get (sheet (sample_world st) ! Suc 0) ''status'' = Str st"
  "js_get (sheet (sample_world st) ! Suc 0) ''stripe_payment_intent_id'' = Str []"
  "js_get (sheet (sample_world st) ! Suc 0) ''customer_email'' = Str ''alice@example.com''"
  by (simp_all add: sample_world_def sample_row_def notifications_def js_get_def)

lemma sample_session_simps [simp]:
  "order_ref sample_session = Str ''TIX-17-k3j9''"
  "payment_intent sample_session = Some ''pi_3Q''"
  "customer_email sample_session = Some ''alice@example.com''"
  "productType_of sample_session = ''ticket''"
  by (simp_all add: sample_session_def optional_def productType_of_def)

lemma stored_intent_nonempty:
  assumes "payment_intent s = Some p" and "p \<noteq> []"
  shows "\<exists>x. x \<noteq> [] \<and> stored_intent sv env s = Str x"
  using assms
  by (cases sv) (auto simp: js_or_def nullable_def split: sum.splits)


lemma other_sessions_simps [simp]:
  "order_ref unpaid_session = Str ''TIX-17-k3j9''"
  "payment_intent unpaid_session = None"
  "customer_email unpaid_session = Some ''alice@example.com''"
  "order_ref stray_session = Str ''TIX-99-zzzz''"
  "customer_email stray_session = Some ''alice@example.com''"
  "productType_of stray_session = ''ticket''"
  "order_ref anonymous_session = Undefined"
  "metadata anonymous_session ''orderRef'' = None"
  "customer_email anonymous_session = Some ''alice@example.com''"
  "productType_of anonymous_session = ''ticket''"
  by (simp_all add: unpaid_session_def stray_session_def anonymous_session_def
        sample_session_def optional_def productType_of_def)

lemma mail_down_simps [simp]:
  "verify (mail_down env) req = verify env req"
  "sheets_error (mail_down env) = sheets_error env"
  "sendMail_error (mail_down env) = Some ''Connection timeout''"
  "toISOString (mail_down env) = toISOString env"
  "paymentIntents_retrieve (mail_down env) = paymentIntents_retrieve env"
  by (simp_all add: mail_down_def)

lemma writes_down_simps [simp]:
  "verify (writes_down env) req = verify env req"
  "sheets_error (writes_down env) = Some (WriteFails ''Quota exceeded'')"
  "sendMail_error (writes_down env) = sendMail_error env"
  "sessions_create (writes_down env) = sessions_create env"
  "read_failure (writes_down env) = None"
  "write_failure (writes_down env) = Some ''Quota exceeded''"
  by (simp_all add: writes_down_def read_failure_def write_failure_def)

lemma readdressed_world_simps [simp]:
  "calls readdressed_world = []"
  "notifications readdressed_world = []"
  "js_get (sheet readdressed_world ! Suc 0) ''status'' = Str ''pending''"
  "js_get (sheet readdressed_world ! Suc 0) ''customer_email'' = Str ''bob@example.com''"
  "find_order (Str ''TIX-17-k3j9'') (sheet readdressed_world) = Some 1"
  by (simp_all add: readdressed_world_def sample_row_def notifications_def js_get_def
        find_order_def strict_eq_def)

section \<open>Facts about initiation\<close>

lemma addRow_values_cells:
  "js_get (addRow_values d) ''amount_total'' = js_get d ''amount_total''"
  "js_get (addRow_values d) ''status'' = js_get d ''status''"
  by (simp_all add: addRow_values_def js_get_def)

lemma create_then_add_initiated:
  assumes "status (fst (create_then_add what env params row_of ref w)) = 200"
    and "line_items params = [\<lparr>unit_amount = price, li_quantity = q\<rparr>]"
    and "\<And>cs. js_get (row_of cs) ''amount_total'' = nullable_int (cs_amount_total cs)"
    and "\<And>cs. js_get (row_of cs) ''status'' = Str ''pending''"
  shows "initiated_with env price q w (snd (create_then_add what env params row_of ref w))"
  using assms
  by (auto simp: create_then_add_def addToGoogleSheets_def checkout_failed_def
        initiated_with_def addRow_values_cells Let_def
        split: sum.splits option.splits)

lemma sessions_since_same [simp]: "sessions_since w w = []"
  by (simp add: sessions_since_def)

lemma create_then_add_sessions:
  "sessions_since w (snd (create_then_add what env params row_of ref w)) = [params]"
  by (simp add: create_then_add_def addToGoogleSheets_def checkout_failed_def
        sessions_since_def Let_def split: sum.splits option.splits)

lemma create_then_add_failed:
  "status (fst (create_then_add what env params row_of ref w)) \<noteq> 200
     \<Longrightarrow> sheet (snd (create_then_add what env params row_of ref w)) = sheet w"
  by (simp add: create_then_add_def addToGoogleSheets_def checkout_failed_def
        Let_def split: sum.splits option.splits)

lemma bad_request_simps [simp]:
  "status (fst (bad_request msg w)) = 400"
  "snd (bad_request msg w) = w"
  by (simp_all add: bad_request_def)

lemma row_cells:
  "js_get (unified_row env b q pt cs) ''amount_total'' = nullable_int (cs_amount_total cs)"
  "js_get (unified_row env b q pt cs) ''status'' = Str ''pending''"
  "js_get (ticket_row env b q cs) ''amount_total'' = nullable_int (cs_amount_total cs)"
  "js_get (ticket_row env b q cs) ''status'' = Str ''pending''"
  "js_get (book_row env b q cs) ''amount_total'' = nullable_int (cs_amount_total cs)"
  "js_get (book_row env b q cs) ''status'' = Str ''pending''"
  by (simp_all add: unified_row_def ticket_row_def book_row_def js_get_def)

lemma params_items:
  "line_items (unified_params env b q pt)
     = [\<lparr>unit_amount = productConfig_unit_amount pt, li_quantity = q\<rparr>]"
  "line_items (ticket_params env b q) = [\<lparr>unit_amount = 2500, li_quantity = q\<rparr>]"
  "line_items (book_params env b q) = [\<lparr>unit_amount = 1999, li_quantity = q\<rparr>]"
  by (simp_all add: unified_params_def ticket_params_def book_params_def)

lemma unified_cases:
  "(\<exists>msg. create_checkout_session env b w = bad_request msg w)
   \<or> (\<exists>q pt. quantity b = Some q \<and> productType b = Some pt
          \<and> create_checkout_session env b w
              = create_then_add ''checkout session'' env
                  (unified_params env b q pt) (unified_row env b q pt)
                  (Some (unified_orderRef env pt)) w)"
  by (auto simp: create_checkout_session_def split: option.splits)

lemma ticket_cases:
  "(\<exists>msg. create_ticket_checkout_session env b w = bad_request msg w)
   \<or> (\<exists>q. quantity b = Some q
          \<and> create_ticket_checkout_session env b w
              = create_then_add ''ticket checkout session'' env
                  (ticket_params env b q) (ticket_row env b q)
                  (Some (''TIX-'' @ Date_now env @ ''-'' @ Math_random env)) w)"
  by (auto simp: create_ticket_checkout_session_def split: option.splits)

lemma book_cases:
  "(\<exists>msg. create_book_checkout_session env b w = bad_request msg w)
   \<or> (\<exists>q. quantity b = Some q
          \<and> create_book_checkout_session env b w
              = create_then_add ''book checkout session'' env
                  (book_params env b q) (book_row env b q)
                  (Some (''BOOK-'' @ Date_now env @ ''-'' @ Math_random env)) w)"
  by (auto simp: create_book_checkout_session_def split: option.splits)

lemma params_ignore_prices:
  "unified_params env (b\<lparr>ticketPrice := x, bookPrice := y, shippingPrice := z\<rparr>) q pt
     = unified_params env b q pt"
  "ticket_params env (b\<lparr>ticketPrice := x, bookPrice := y, shippingPrice := z\<rparr>) q
     = ticket_params env b q"
  "book_params env (b\<lparr>ticketPrice := x, bookPrice := y, shippingPrice := z\<rparr>) q
     = book_params env b q"
  by (simp_all add: unified_params_def unified_metadata_def ticket_params_def book_params_def
        Let_def cong: if_cong)

lemma rows_ignore_prices:
  "unified_row env (b\<lparr>ticketPrice := x, bookPrice := y, shippingPrice := z\<rparr>) q pt
     = unified_row env b q pt"
  "ticket_row env (b\<lparr>ticketPrice := x, bookPrice := y, shippingPrice := z\<rparr>) q
     = ticket_row env b q"
  "book_row env (b\<lparr>ticketPrice := x, bookPrice := y, shippingPrice := z\<rparr>) q
     = book_row env b q"
  by (rule ext, simp add: unified_row_def ticket_row_def book_row_def)+

lemma prices_ignored:
  "create_checkout_session env (b\<lparr>ticketPrice := x, bookPrice := y, shippingPrice := z\<rparr>) w
     = create_checkout_session env b w"
  "create_ticket_checkout_session env (b\<lparr>ticketPrice := x, bookPrice := y, shippingPrice := z\<rparr>) w
     = create_ticket_checkout_session env b w"
  "create_book_checkout_session env (b\<lparr>ticketPrice := x, bookPrice := y, shippingPrice := z\<rparr>) w
     = create_book_checkout_session env b w"
  by (simp_all add: create_checkout_session_def create_ticket_checkout_session_def
        create_book_checkout_session_def params_ignore_prices rows_ignore_prices
        cong: option.case_cong if_cong)

lemma Math_round_simps:
  "Math_round 1 = 1"
  "Math_round 2500 = 2500"
  by (simp_all add: Math_round_def floor_eq_iff)

lemma sample_bodies [simp]:
  "quantity ticket_body = Some 2"
  "productType ticket_body = Some ''ticket''"
  "quantity ticket_body_with_shipping = Some 2"
  "productType ticket_body_with_shipping = Some ''ticket''"
  "quantity book_body_without_postcode = Some 1"
  "productType book_body_without_postcode = Some ''book''"
  "postcode book_body_without_postcode = None"
  "quantity penny_body = Some 2"
  "ticketPrice penny_body = Some (1 / 100)"
  "name penny_body = Some ''Alice''"
  "email penny_body = Some ''alice@example.com''"
  by (simp_all add: ticket_body_def ticket_body_with_shipping_def
        book_body_without_postcode_def penny_body_def no_body_def)

lemma sample_create_then_add:
  "fst (create_then_add what (sample_env s) params row_of ref empty_world)
     = \<lparr>status = 200, payload = JsonSession ''https://checkout.stripe.com/c/pay/cs_a1'' ''cs_a1'' ref\<rparr>"
  "calls (snd (create_then_add what (sample_env s) params row_of ref empty_world))
     = [SessionsCreate params,
        SheetsAdd (row_of \<lparr>cs_id = ''cs_a1'', cs_url = ''https://checkout.stripe.com/c/pay/cs_a1'',
                           cs_amount_total =
                             Some (sum_list (map (\<lambda>l. unit_amount l * li_quantity l)
                                              (line_items params)))\<rparr>)]"
  "sheet (snd (create_then_add what (sample_env s) params row_of ref empty_world))
     = [addRow_values
          (row_of \<lparr>cs_id = ''cs_a1'', cs_url = ''https://checkout.stripe.com/c/pay/cs_a1'',
                   cs_amount_total =
                     Some (sum_list (map (\<lambda>l. unit_amount l * li_quantity l)
                                      (line_items params)))\<rparr>)]"
  by (simp_all add: create_then_add_def sample_env_def addToGoogleSheets_def empty_world_def
        read_failure_def write_failure_def Let_def)

lemma shipping_ignored:
  "productType b = Some ''ticket'' \<Longrightarrow>
     create_checkout_session env (b\<lparr>address := a, city := c, postcode := p\<rparr>) w
       = create_checkout_session env b w"
  "create_ticket_checkout_session env (b\<lparr>address := a, city := c, postcode := p\<rparr>) w
     = create_ticket_checkout_session env b w"
  "create_checkout_session_index env (b\<lparr>address := a, city := c, postcode := p\<rparr>) w
     = create_checkout_session_index env b w"
proof -
  have u: "unified_params env (b\<lparr>address := a, city := c, postcode := p\<rparr>) q ''ticket''
             = unified_params env b q ''ticket''"
          "unified_row env (b\<lparr>address := a, city := c, postcode := p\<rparr>) q ''ticket''
             = unified_row env b q ''ticket''" for q
    by (simp add: unified_params_def unified_metadata_def Let_def)
       (rule ext, simp add: unified_row_def)
  have t: "ticket_params env (b\<lparr>address := a, city := c, postcode := p\<rparr>) q
             = ticket_params env b q"
          "ticket_row env (b\<lparr>address := a, city := c, postcode := p\<rparr>) q = ticket_row env b q"
    for q
    by (simp add: ticket_params_def) (rule ext, simp add: ticket_row_def)
  have i: "index_params env (b\<lparr>address := a, city := c, postcode := p\<rparr>) q pr
             = index_params env b q pr"
          "index_row env (b\<lparr>address := a, city := c, postcode := p\<rparr>) q pr
             = index_row env b q pr" for q pr
    by (simp add: index_params_def) (rule ext, simp add: index_row_def)
  show "productType b = Some ''ticket'' \<Longrightarrow>
     create_checkout_session env (b\<lparr>address := a, city := c, postcode := p\<rparr>) w
       = create_checkout_session env b w"
    by (simp add: create_checkout_session_def u cong: option.case_cong if_cong)
  show "create_ticket_checkout_session env (b\<lparr>address := a, city := c, postcode := p\<rparr>) w
     = create_ticket_checkout_session env b w"
    by (simp add: create_ticket_checkout_session_def t cong: option.case_cong if_cong)
  show "create_checkout_session_index env (b\<lparr>address := a, city := c, postcode := p\<rparr>) w
     = create_checkout_session_index env b w"
    by (simp add: create_checkout_session_index_def i
          cong: option.case_cong if_cong prod.case_cong)
qed

lemma book_without_shipping:
  assumes "missing (address b) \<or> missing (city b) \<or> missing (postcode b)"
  shows "productType b = Some ''book'' \<Longrightarrow>
           status (fst (create_checkout_session env b w)) = 400
           \<and> snd (create_checkout_session env b w) = w"
    and "status (fst (create_book_checkout_session env b w)) = 400
           \<and> snd (create_book_checkout_session env b w) = w"
    and "status (fst (create_book_checkout_session_index env b w)) = 400
           \<and> snd (create_book_checkout_session_index env b w) = w"
  using assms
  by (auto simp: create_checkout_session_def create_book_checkout_session_def
        create_book_checkout_session_index_def split: option.splits)

lemma unified_run:
  "\<forall>p \<in> set (sessions_since w (snd (create_checkout_session env b w))).
      \<exists>q pt. quantity b = Some q \<and> productType b = Some pt
        \<and> line_items p
            = [\<lparr>unit_amount = (if pt = ''book'' then 1999 else 2500), li_quantity = q\<rparr>]"
  "status (fst (create_checkout_session env b w)) = 200 \<longrightarrow>
      (\<exists>q pt. quantity b = Some q \<and> productType b = Some pt
         \<and> initiated_with env (if pt = ''book'' then 1999 else 2500) q w
              (snd (create_checkout_session env b w)))"
  "status (fst (create_checkout_session env b w)) \<noteq> 200 \<longrightarrow>
      sheet (snd (create_checkout_session env b w)) = sheet w"
proof -
  consider msg where "create_checkout_session env b w = bad_request msg w"
    | q pt where "quantity b = Some q" "productType b = Some pt"
        "create_checkout_session env b w
           = create_then_add ''checkout session'' env
               (unified_params env b q pt) (unified_row env b q pt)
               (Some (unified_orderRef env pt)) w"
    using unified_cases [of env b w] by blast
  note split = this
  have items: "line_items (unified_params env b q pt)
      = [\<lparr>unit_amount = (if pt = ''book'' then 1999 else 2500), li_quantity = q\<rparr>]" for q pt
    by (simp add: params_items productConfig_unit_amount_def)
  show "\<forall>p \<in> set (sessions_since w (snd (create_checkout_session env b w))).
      \<exists>q pt. quantity b = Some q \<and> productType b = Some pt
        \<and> line_items p
            = [\<lparr>unit_amount = (if pt = ''book'' then 1999 else 2500), li_quantity = q\<rparr>]"
    by (cases rule: split) (simp_all add: create_then_add_sessions items)
  show "status (fst (create_checkout_session env b w)) = 200 \<longrightarrow>
      (\<exists>q pt. quantity b = Some q \<and> productType b = Some pt
         \<and> initiated_with env (if pt = ''book'' then 1999 else 2500) q w
              (snd (create_checkout_session env b w)))"
  proof (cases rule: split)
    case 1
    then show ?thesis by simp
  next
    case (2 q pt)
    have "status (fst (create_then_add ''checkout session'' env
                         (unified_params env b q pt) (unified_row env b q pt)
                         (Some (unified_orderRef env pt)) w)) = 200
          \<Longrightarrow> initiated_with env (if pt = ''book'' then 1999 else 2500) q w
                (snd (create_then_add ''checkout session'' env
                        (unified_params env b q pt) (unified_row env b q pt)
                        (Some (unified_orderRef env pt)) w))"
      by (rule create_then_add_initiated) (simp_all add: items row_cells)
    with 2 show ?thesis by simp
  qed
  show "status (fst (create_checkout_session env b w)) \<noteq> 200 \<longrightarrow>
      sheet (snd (create_checkout_session env b w)) = sheet w"
    by (cases rule: split) (simp_all add: create_then_add_failed)
qed

lemma ticket_run:
  "\<forall>p \<in> set (sessions_since w (snd (create_ticket_checkout_session env b w))).
      \<exists>q. quantity b = Some q
        \<and> line_items p = [\<lparr>unit_amount = 2500, li_quantity = q\<rparr>]"
  "status (fst (create_ticket_checkout_session env b w)) = 200 \<longrightarrow>
      (\<exists>q. quantity b = Some q
         \<and> initiated_with env 2500 q w (snd (create_ticket_checkout_session env b w)))"
  "status (fst (create_ticket_checkout_session env b w)) \<noteq> 200 \<longrightarrow>
      sheet (snd (create_ticket_checkout_session env b w)) = sheet w"
proof -
  consider msg where "create_ticket_checkout_session env b w = bad_request msg w"
    | q where "quantity b = Some q"
        "create_ticket_checkout_session env b w
           = create_then_add ''ticket checkout session'' env
               (ticket_params env b q) (ticket_row env b q)
               (Some (''TIX-'' @ Date_now env @ ''-'' @ Math_random env)) w"
    using ticket_cases [of env b w] by blast
  note split = this
  show "\<forall>p \<in> set (sessions_since w (snd (create_ticket_checkout_session env b w))).
      \<exists>q. quantity b = Some q
        \<and> line_items p = [\<lparr>unit_amount = 2500, li_quantity = q\<rparr>]"
    by (cases rule: split) (simp_all add: create_then_add_sessions params_items)
  show "status (fst (create_ticket_checkout_session env b w)) = 200 \<longrightarrow>
      (\<exists>q. quantity b = Some q
         \<and> initiated_with env 2500 q w (snd (create_ticket_checkout_session env b w)))"
  proof (cases rule: split)
    case 1
    then show ?thesis by simp
  next
    case (2 q)
    have "status (fst (create_then_add ''ticket checkout session'' env
                         (ticket_params env b q) (ticket_row env b q)
                         (Some (''TIX-'' @ Date_now env @ ''-'' @ Math_random env)) w)) = 200
          \<Longrightarrow> initiated_with env 2500 q w
                (snd (create_then_add ''ticket checkout session'' env
                        (ticket_params env b q) (ticket_row env b q)
                        (Some (''TIX-'' @ Date_now env @ ''-'' @ Math_random env)) w))"
      by (rule create_then_add_initiated) (simp_all add: params_items row_cells)
    with 2 show ?thesis by simp
  qed
  show "status (fst (create_ticket_checkout_session env b w)) \<noteq> 200 \<longrightarrow>
      sheet (snd (create_ticket_checkout_session env b w)) = sheet w"
    by (cases rule: split) (simp_all add: create_then_add_failed)
qed

lemma book_run:
  "\<forall>p \<in> set (sessions_since w (snd (create_book_checkout_session env b w))).
      \<exists>q. quantity b = Some q
        \<and> line_items p = [\<lparr>unit_amount = 1999, li_quantity = q\<rparr>]"
  "status (fst (create_book_checkout_session env b w)) = 200 \<longrightarrow>
      (\<exists>q. quantity b = Some q
         \<and> initiated_with env 1999 q w (snd (create_book_checkout_session env b w)))"
  "status (fst (create_book_checkout_session env b w)) \<noteq> 200 \<longrightarrow>
      sheet (snd (create_book_checkout_session env b w)) = sheet w"
proof -
  consider msg where "create_book_checkout_session env b w = bad_request msg w"
    | q where "quantity b = Some q"
        "create_book_checkout_session env b w
           = create_then_add ''book checkout session'' env
               (book_params env b q) (book_row env b q)
               (Some (''BOOK-'' @ Date_now env @ ''-'' @ Math_random env)) w"
    using book_cases [of env b w] by blast
  note split = this
  show "\<forall>p \<in> set (sessions_since w (snd (create_book_checkout_session env b w))).
      \<exists>q. quantity b = Some q
        \<and> line_items p = [\<lparr>unit_amount = 1999, li_quantity = q\<rparr>]"
    by (cases rule: split) (simp_all add: create_then_add_sessions params_items)
  show "status (fst (create_book_checkout_session env b w)) = 200 \<longrightarrow>
      (\<exists>q. quantity b = Some q
         \<and> initiated_with env 1999 q w (snd (create_book_checkout_session env b w)))"
  proof (cases rule: split)
    case 1
    then show ?thesis by simp
  next
    case (2 q)
    have "status (fst (create_then_add ''book checkout session'' env
                         (book_params env b q) (book_row env b q)
                         (Some (''BOOK-'' @ Date_now env @ ''-'' @ Math_random env)) w)) = 200
          \<Longrightarrow> initiated_with env 1999 q w
                (snd (create_then_add ''book checkout session'' env
                        (book_params env b q) (book_row env b q)
                        (Some (''BOOK-'' @ Date_now env @ ''-'' @ Math_random env)) w))"
      by (rule create_then_add_initiated) (simp_all add: params_items row_cells)
    with 2 show ?thesis by simp
  qed
  show "status (fst (create_book_checkout_session env b w)) \<noteq> 200 \<longrightarrow>
      sheet (snd (create_book_checkout_session env b w)) = sheet w"
    by (cases rule: split) (simp_all add: create_then_add_failed)
qed

section \<open>The claims about the webhook\<close>

text \<open>
  C5. A webhook request whose payload fails signature verification is answered with
  status 400 by either server, and nothing happens: the sheet is as it was and no call
  to the gateway, the sheet or the mail transport is made.
\<close>

theorem invalid_signature_rejected:
  assumes "verify env req = Inl msg"
  shows "status (fst (webhook sv env req w)) = 400
       \<and> sheet (snd (webhook sv env req w)) = sheet w
       \<and> calls (snd (webhook sv env req w)) = calls w"
  using assms by (simp add: webhook_response webhook_sheet webhook_calls)

theorem invalid_signature_rejected_witness:
  "status (fst (webhook_stripe (sample_env sample_session) forged_request
                  (sample_world ''pending''))) = 400
   \<and> sheet (snd (webhook_stripe (sample_env sample_session) forged_request
                  (sample_world ''pending''))) = sheet (sample_world ''pending'')
   \<and> calls (snd (webhook_stripe (sample_env sample_session) forged_request
                  (sample_world ''pending''))) = []"
proof -
  have v: "verify (sample_env sample_session) forged_request
             = Inl ''No signatures found matching the expected signature for payload''"
    by (simp add: sample_env_def forged_request_def)
  show ?thesis
    using invalid_signature_rejected [OF v, where sv = Unified and w = "sample_world ''pending''"]
    by simp
qed

text \<open>
  C10, as the code has it. The confirmation a completed event triggers is composed from
  the verified event alone: its recipient is the session's \<open>customer_email\<close> and its data
  are the session's metadata and amount. Whether it is sent depends on the sheet only
  through the update that comes first: it is sent unless that update throws. While no
  sheet call fails, the same request gives the same notifications whatever the sheet
  holds; when the write fails, the confirmation is sent only if no row matched the
  reference, and when the sheet cannot be read it is not sent.
\<close>

theorem notification_content_from_event:
  "notifications (snd (webhook sv env req w))
     = notifications w
       @ (case verify env req of
            Inl msg \<Rightarrow> []
          | Inr ev \<Rightarrow>
              if confirmation_sent env ev (sheet w)
              then [confirmation sv (data_object ev)] else [])
   \<and> mail_to (confirmation sv s) = nullable (customer_email s)
   \<and> (sheets_error env = None \<longrightarrow>
        notifications (snd (webhook sv env req (w\<lparr>sheet := rows\<rparr>)))
          = notifications (snd (webhook sv env req w)))
   \<and> (confirmation_sent env ev rows \<longleftrightarrow>
        event_type ev = completed
        \<and> (case sheets_error env of
              None \<Rightarrow> True
            | Some (ReadFails msg) \<Rightarrow> False
            | Some (WriteFails msg) \<Rightarrow> find_order (order_ref (data_object ev)) rows = None))"
proof -
  have same: "notifications (w\<lparr>sheet := rows\<rparr>) = notifications w"
    by (simp add: notifications_def)
  have to: "mail_to (confirmation sv s) = nullable (customer_email s)"
    by (cases sv) simp_all
  have free: "sheets_error env = None \<longrightarrow>
        notifications (snd (webhook sv env req (w\<lparr>sheet := rows\<rparr>)))
          = notifications (snd (webhook sv env req w))"
    by (simp add: webhook_notifications same split: sum.splits)
  have sent: "confirmation_sent env ev rows \<longleftrightarrow>
        event_type ev = completed
        \<and> (case sheets_error env of
              None \<Rightarrow> True
            | Some (ReadFails msg) \<Rightarrow> False
            | Some (WriteFails msg) \<Rightarrow> find_order (order_ref (data_object ev)) rows = None)"
    by (simp add: confirmation_sent_def update_outcome_def
          split: option.splits sheets_failure.splits)
  from to free sent show ?thesis
    by (simp only: webhook_notifications simp_thms)
qed

theorem notification_content_from_event_witness:
  "notifications (snd (webhook_stripe (sample_env sample_session) (sample_request completed)
                        (sample_world ''pending'')))
     = [\<lparr>mail_to = Str ''alice@example.com'', mail_template = ''ticket'',
         mail_data = ticket_data sample_session\<rparr>]
   \<and> notifications (snd (webhook_stripe (sample_env sample_session) (sample_request completed)
                        ((sample_world ''pending'')\<lparr>sheet := []\<rparr>)))
     = notifications (snd (webhook_stripe (sample_env sample_session) (sample_request completed)
                        (sample_world ''pending'')))"
  using notification_content_from_event
          [where sv = Unified and env = "sample_env sample_session"
             and req = "sample_request completed" and w = "sample_world ''pending''"
             and rows = "[]" and s = sample_session
             and ev = "\<lparr>event_type = completed, data_object = sample_session\<rparr>"]
  by (simp add: sample_verify nullable_def)

theorem failing_write_counterexample:
  "verify (writes_down (sample_env sample_session)) (sample_request completed)
     = Inr \<lparr>event_type = completed, data_object = sample_session\<rparr>
   \<and> notifications (snd (webhook_stripe (writes_down (sample_env sample_session))
                            (sample_request completed) (sample_world ''pending''))) = []
   \<and> map mail_to
         (notifications (snd (webhook_stripe (writes_down (sample_env sample_session))
                                (sample_request completed)
                                ((sample_world ''pending'')\<lparr>sheet := []\<rparr>))))
       = [Str ''alice@example.com'']"
  using webhook_notifications
          [where sv = Unified and env = "writes_down (sample_env sample_session)"
             and req = "sample_request completed" and w = "sample_world ''pending''"]
        webhook_notifications
          [where sv = Unified and env = "writes_down (sample_env sample_session)"
             and req = "sample_request completed"
             and w = "(sample_world ''pending'')\<lparr>sheet := []\<rparr>"]
  by (simp add: sample_verify confirmation_sent_def update_outcome_def sample_find
        nullable_def)

text \<open>
  C1, as the code has it. A terminal order is not protected. While the sheet calls
  succeed, only an event of another type is a no-op. A completed event, redelivered or not, writes \<open>completed\<close>, the payment
  intent the server resolved for the event and the time to the order's row, and hands one
  more confirmation to the transport; an expired event writes \<open>failed\<close> and the time and
  sends nothing. Every other column of that row, for an expired event the stored payment
  intent too, and every other row stay as they were.
\<close>

theorem terminal_order_not_guarded:
  assumes "verify env req = Inr ev"
    and "sheets_error env = None"
    and "find_order (order_ref (data_object ev)) (sheet w) = Some i"
    and "js_get (sheet w ! i) ''status'' = Str ''completed''
           \<or> js_get (sheet w ! i) ''status'' = Str ''failed''"
  shows "(event_type ev \<noteq> completed \<and> event_type ev \<noteq> expired
            \<longrightarrow> snd (webhook sv env req w) = w)
       \<and> (event_type ev = completed \<longrightarrow>
            sheet (snd (webhook sv env req w))
              = (sheet w)[i := (sheet w ! i)
                   (''status'' \<mapsto> Str ''completed'',
                    ''stripe_payment_intent_id'' \<mapsto> stored_intent sv env (data_object ev),
                    ''updated_at'' \<mapsto> Str (toISOString env))]
          \<and> notifications (snd (webhook sv env req w))
              = notifications w @ [confirmation sv (data_object ev)])
       \<and> (event_type ev = expired \<longrightarrow>
            sheet (snd (webhook sv env req w))
              = (sheet w)[i := (sheet w ! i)
                   (''status'' \<mapsto> Str ''failed'',
                    ''updated_at'' \<mapsto> Str (toISOString env))]
          \<and> notifications (snd (webhook sv env req w)) = notifications w)"
proof -
  have other: "event_type ev \<noteq> completed \<and> event_type ev \<noteq> expired
                 \<longrightarrow> snd (webhook sv env req w) = w"
    using webhook_ignored [OF assms(1)] by simp
  have rows: "sheet (snd (webhook sv env req w))
      = (sheet w)[i := set_all (event_updates sv env ev) (sheet w ! i)]"
    using assms(1,2,3) by (simp add: webhook_sheet after_update_found)
  have sent: "notifications (snd (webhook sv env req w)) =
      notifications w @ (if event_type ev = completed then [confirmation sv (data_object ev)] else [])"
    using assms(1,2) by (simp add: webhook_notifications)
  show ?thesis
    using other by (simp add: rows sent event_updates_def set_all_def)
qed

theorem terminal_order_not_guarded_witness:
  "js_get (sheet (snd (webhook_stripe (sample_env sample_session) (sample_request completed)
                        (sample_world ''completed''))) ! 1) ''status'' = Str ''completed''
   \<and> js_get (sheet (snd (webhook_stripe (sample_env sample_session) (sample_request completed)
                        (sample_world ''completed''))) ! 1) ''stripe_payment_intent_id''
       = Str ''pi_3Q''
   \<and> js_get (sheet (snd (webhook_stripe (sample_env sample_session) (sample_request completed)
                        (sample_world ''completed''))) ! 1) ''updated_at''
       = Str ''2026-01-05T10:00:00.000Z''
   \<and> notifications (snd (webhook_stripe (sample_env sample_session) (sample_request completed)
                        (sample_world ''completed'')))
       = [confirmation Unified sample_session]"
proof -
  have after: "sheet (snd (webhook_stripe (sample_env sample_session) (sample_request completed)
                             (sample_world ''completed'')))
        = (sheet (sample_world ''completed''))
            [1 := (sheet (sample_world ''completed'') ! 1)
                    (''status'' \<mapsto> Str ''completed'',
                     ''stripe_payment_intent_id'' \<mapsto> Str ''pi_3Q'',
                     ''updated_at'' \<mapsto> Str ''2026-01-05T10:00:00.000Z'')]
      \<and> notifications (snd (webhook_stripe (sample_env sample_session)
                               (sample_request completed) (sample_world ''completed'')))
        = [confirmation Unified sample_session]"
    using terminal_order_not_guarded
            [OF sample_verify [of sample_session completed],
               where w = "sample_world ''completed''" and i = 1 and sv = Unified]
    by (simp add: sample_find nullable_def js_or_def)
  then show ?thesis
    by (simp add: js_get_def)
qed

theorem terminal_order_noop_counterexample:
  "js_get (sheet (sample_world ''completed'') ! 1) ''status'' = Str ''completed''
   \<and> notifications (sample_world ''completed'') = []
   \<and> notifications (snd (webhook_stripe (sample_env sample_session) (sample_request completed)
                        (sample_world ''completed'')))
       = [confirmation Unified sample_session]
   \<and> js_get (sheet (snd (webhook_stripe (sample_env sample_session) (sample_request expired)
                        (sample_world ''completed''))) ! 1) ''status'' = Str ''failed''"
  using webhook_notifications
          [where sv = Unified and env = "sample_env sample_session"
             and req = "sample_request completed" and w = "sample_world ''completed''"]
        webhook_cell
          [OF sample_verify [of sample_session expired],
             where w = "sample_world ''completed''" and i = 1 and sv = Unified and j = 1
             and k = "''status''"]
  by (simp add: sample_verify sample_find js_get_expired_row)

text \<open>
  C2, as the code has it. For a verified completed event whose reference names a known
  pending order, while the sheet calls succeed, either server sets the order's status to
  \<open>completed\<close>, writes the payment intent it resolved for the event, and hands exactly
  one confirmation to the transport. The confirmation goes to the \<open>customer_email\<close> of
  the event, which is the order's own address whenever the row holds that same address.
  The stored payment intent is non-empty when the session carries a non-empty
  \<open>payment_intent\<close>. For a session without one, the server of \<^verbatim>\<open>index.js\<close> stores
  \<open>null\<close>, and the unified server stores the id the retrieval returned, or the empty
  string when the retrieval failed.
\<close>

theorem completed_event_completes_order:
  assumes "verify env req = Inr ev"
    and "event_type ev = completed"
    and "sheets_error env = None"
    and "find_order (order_ref (data_object ev)) (sheet w) = Some i"
    and "js_get (sheet w ! i) ''status'' = Str ''pending''"
  shows "js_get (sheet (snd (webhook sv env req w)) ! i) ''status'' = Str ''completed''
       \<and> js_get (sheet (snd (webhook sv env req w)) ! i) ''stripe_payment_intent_id''
           = stored_intent sv env (data_object ev)
       \<and> (\<forall>p. payment_intent (data_object ev) = Some p \<and> p \<noteq> []
              \<longrightarrow> (\<exists>x. x \<noteq> [] \<and> stored_intent sv env (data_object ev) = Str x))
       \<and> (payment_intent (data_object ev) = None \<longrightarrow>
            stored_intent Index env (data_object ev) = Null
          \<and> (\<forall>pid. paymentIntents_retrieve env None = Inr pid
                 \<longrightarrow> stored_intent Unified env (data_object ev) = Str pid)
          \<and> (\<forall>msg. paymentIntents_retrieve env None = Inl msg
                 \<longrightarrow> stored_intent Unified env (data_object ev) = Str []))
       \<and> notifications (snd (webhook sv env req w))
           = notifications w @ [confirmation sv (data_object ev)]
       \<and> mail_to (confirmation sv (data_object ev)) = nullable (customer_email (data_object ev))
       \<and> (js_get (sheet w ! i) ''customer_email'' = nullable (customer_email (data_object ev))
            \<longrightarrow> mail_to (confirmation sv (data_object ev)) = js_get (sheet w ! i) ''customer_email'')"
proof -
  have cell: "\<And>k. js_get (sheet (snd (webhook sv env req w)) ! i) k =
      js_get (set_all (event_updates sv env ev) (sheet w ! i)) k"
    by (simp add: webhook_cell [OF assms(1,3,4)])
  have to: "mail_to (confirmation sv (data_object ev)) = nullable (customer_email (data_object ev))"
    by (cases sv) simp_all
  have filled: "\<forall>p. payment_intent (data_object ev) = Some p \<and> p \<noteq> []
              \<longrightarrow> (\<exists>x. x \<noteq> [] \<and> stored_intent sv env (data_object ev) = Str x)"
    using stored_intent_nonempty [of "data_object ev" _ sv env] by blast
  have absent: "payment_intent (data_object ev) = None \<longrightarrow>
            stored_intent Index env (data_object ev) = Null
          \<and> (\<forall>pid. paymentIntents_retrieve env None = Inr pid
                 \<longrightarrow> stored_intent Unified env (data_object ev) = Str pid)
          \<and> (\<forall>msg. paymentIntents_retrieve env None = Inl msg
                 \<longrightarrow> stored_intent Unified env (data_object ev) = Str [])"
    by (simp add: js_or_def nullable_def)
  have sent: "notifications (snd (webhook sv env req w))
           = notifications w @ [confirmation sv (data_object ev)]"
    using assms(1,2,3) by (simp add: webhook_notifications)
  have written: "js_get (sheet (snd (webhook sv env req w)) ! i) ''status'' = Str ''completed''"
    "js_get (sheet (snd (webhook sv env req w)) ! i) ''stripe_payment_intent_id''
           = stored_intent sv env (data_object ev)"
    using assms(2) by (simp_all add: cell js_get_updated_row)
  from written filled absent sent to show ?thesis
    by (simp del: stored_intent.simps confirmation.simps)
qed

theorem completed_event_completes_order_witness:
  "js_get (sheet (snd (webhook_stripe (sample_env sample_session) (sample_request completed)
                        (sample_world ''pending''))) ! 1) ''status'' = Str ''completed''
   \<and> js_get (sheet (snd (webhook_stripe (sample_env sample_session)
                            (sample_request completed) (sample_world ''pending''))) ! 1)
         ''stripe_payment_intent_id'' = Str ''pi_3Q''
   \<and> notifications (snd (webhook_stripe (sample_env sample_session) (sample_request completed)
                            (sample_world ''pending'')))
       = [confirmation Unified sample_session]
   \<and> mail_to (confirmation Unified sample_session)
       = js_get (sheet (sample_world ''pending'') ! 1) ''customer_email''"
  using completed_event_completes_order
          [OF sample_verify [of sample_session completed],
             where w = "sample_world ''pending''" and i = 1 and sv = Unified]
  by (simp add: sample_find nullable_def js_or_def)

theorem empty_intent_other_recipient_counterexample:
  "js_get (sheet (sample_world ''pending'') ! 1) ''status'' = Str ''pending''
   \<and> fst (webhook_stripe (sample_env unpaid_session) (sample_request completed)
             (sample_world ''pending'')) = \<lparr>status = 200, payload = JsonReceived\<rparr>
   \<and> js_get (sheet (snd (webhook_stripe (sample_env unpaid_session) (sample_request completed)
                            (sample_world ''pending''))) ! 1) ''status'' = Str ''completed''
   \<and> js_get (sheet (snd (webhook_stripe (sample_env unpaid_session) (sample_request completed)
                            (sample_world ''pending''))) ! 1) ''stripe_payment_intent_id'' = Str []
   \<and> js_get (sheet (snd (webhook_stripe_index (sample_env unpaid_session)
                            (sample_request completed) (sample_world ''pending''))) ! 1)
         ''stripe_payment_intent_id'' = Null
   \<and> js_get (sheet readdressed_world ! 1) ''status'' = Str ''pending''
   \<and> js_get (sheet readdressed_world ! 1) ''customer_email'' = Str ''bob@example.com''
   \<and> map mail_to (notifications (snd (webhook_stripe (sample_env sample_session)
                                          (sample_request completed) readdressed_world)))
       = [Str ''alice@example.com'']"
  using webhook_cell
          [OF sample_verify [of unpaid_session completed],
             where w = "sample_world ''pending''" and i = 1 and sv = Unified and j = 1]
        webhook_cell
          [OF sample_verify [of unpaid_session completed],
             where w = "sample_world ''pending''" and i = 1 and sv = Index and j = 1]
        webhook_response
          [where sv = Unified and env = "sample_env unpaid_session"
             and req = "sample_request completed" and w = "sample_world ''pending''"]
        webhook_notifications
          [where sv = Unified and env = "sample_env sample_session"
             and req = "sample_request completed" and w = readdressed_world]
  by (simp add: sample_verify sample_find js_get_completed_row event_outcome_def
        js_or_def nullable_def)

text \<open>
  C4, as the code has it. For a verified expired event whose order is found, with the
  sheet reachable, either server sets the order's status to \<open>failed\<close> whatever it was
  before, pending or already completed, and refreshes \<open>updated_at\<close>; every other column
  and every other row stays, no notification is sent, and the gateway is answered 200.
\<close>

theorem expired_event_fails_order:
  assumes "verify env req = Inr ev"
    and "event_type ev = expired"
    and "sheets_error env = None"
    and "find_order (order_ref (data_object ev)) (sheet w) = Some i"
  shows "js_get (sheet (snd (webhook sv env req w)) ! i) ''status'' = Str ''failed''
       \<and> js_get (sheet (snd (webhook sv env req w)) ! i) ''updated_at'' = Str (toISOString env)
       \<and> (\<forall>j k. j \<noteq> i \<or> (k \<noteq> ''status'' \<and> k \<noteq> ''updated_at'')
            \<longrightarrow> js_get (sheet (snd (webhook sv env req w)) ! j) k = js_get (sheet w ! j) k)
       \<and> notifications (snd (webhook sv env req w)) = notifications w
       \<and> fst (webhook sv env req w) = \<lparr>status = 200, payload = JsonReceived\<rparr>"
proof -
  have cell: "\<And>j k. js_get (sheet (snd (webhook sv env req w)) ! j) k =
      (if j = i then js_get (set_all (event_updates sv env ev) (sheet w ! i)) k
       else js_get (sheet w ! j) k)"
    by (rule webhook_cell [OF assms(1,3,4)])
  show ?thesis
    using assms(1,2,3)
    by (simp add: cell js_get_updated_row webhook_notifications webhook_response
          event_outcome_def)
qed

theorem expired_event_fails_order_witness:
  "js_get (sheet (snd (webhook_stripe (sample_env sample_session) (sample_request expired)
                        (sample_world ''pending''))) ! 1) ''status'' = Str ''failed''
   \<and> notifications (snd (webhook_stripe (sample_env sample_session) (sample_request expired)
                            (sample_world ''pending''))) = []
   \<and> fst (webhook_stripe (sample_env sample_session) (sample_request expired)
             (sample_world ''pending'')) = \<lparr>status = 200, payload = JsonReceived\<rparr>"
  using expired_event_fails_order
          [OF sample_verify [of sample_session expired],
             where w = "sample_world ''pending''" and i = 1 and sv = Unified]
  by (simp add: sample_find)

theorem expired_after_completed_counterexample:
  "js_get (sheet (sample_world ''completed'') ! 1) ''status'' = Str ''completed''
   \<and> js_get (sheet (snd (webhook_stripe (sample_env sample_session) (sample_request expired)
                            (sample_world ''completed''))) ! 1) ''status'' = Str ''failed''
   \<and> js_get (sheet (snd (webhook_stripe_index (sample_env sample_session)
                            (sample_request expired) (sample_world ''completed''))) ! 1)
         ''status'' = Str ''failed''"
  using webhook_cell
          [OF sample_verify [of sample_session expired],
             where w = "sample_world ''completed''" and i = 1 and sv = Unified and j = 1
             and k = "''status''"]
        webhook_cell
          [OF sample_verify [of sample_session expired],
             where w = "sample_world ''completed''" and i = 1 and sv = Index and j = 1
             and k = "''status''"]
  by (simp add: sample_find js_get_expired_row)

text \<open>
  C7, as the code has it. When the mail transport fails after the sheet was updated, the
  order's status stays \<open>completed\<close> in both servers and the send is attempted once. The
  server of \<^verbatim>\<open>index.js\<close> swallows the failure and answers 200; the unified server throws
  it again and answers 500 with the transport's message.
\<close>

theorem notifier_failure_keeps_completed:
  assumes "verify env req = Inr ev"
    and "event_type ev = completed"
    and "sheets_error env = None"
    and "find_order (order_ref (data_object ev)) (sheet w) = Some i"
    and "sendMail_error env = Some e"
  shows "js_get (sheet (snd (webhook sv env req w)) ! i) ''status'' = Str ''completed''
       \<and> notifications (snd (webhook sv env req w))
           = notifications w @ [confirmation sv (data_object ev)]
       \<and> fst (webhook_stripe_index env req w) = \<lparr>status = 200, payload = JsonReceived\<rparr>
       \<and> fst (webhook_stripe env req w) = \<lparr>status = 500, payload = JsonError e\<rparr>"
proof -
  have cell: "\<And>k. js_get (sheet (snd (webhook sv env req w)) ! i) k =
      js_get (set_all (event_updates sv env ev) (sheet w ! i)) k"
    by (simp add: webhook_cell [OF assms(1,3,4)])
  have a: "fst (webhook Index env req w) = \<lparr>status = 200, payload = JsonReceived\<rparr>"
    using assms(1,2,3) webhook_response [where sv = Index and env = env and req = req and w = w]
    by (simp add: event_outcome_def)
  have b: "fst (webhook Unified env req w) = \<lparr>status = 500, payload = JsonError e\<rparr>"
    using assms(1,2,3,5) webhook_response [where sv = Unified and env = env and req = req and w = w]
    by (simp add: event_outcome_def)
  show ?thesis
    using assms(1,2,3) a b
    by (simp add: cell js_get_updated_row webhook_notifications)
qed

theorem notifier_failure_keeps_completed_witness:
  "js_get (sheet (snd (webhook_stripe_index (mail_down (sample_env sample_session))
                        (sample_request completed) (sample_world ''pending''))) ! 1)
     ''status'' = Str ''completed''
   \<and> notifications (snd (webhook_stripe_index (mail_down (sample_env sample_session))
                            (sample_request completed) (sample_world ''pending'')))
       = [confirmation Index sample_session]
   \<and> fst (webhook_stripe_index (mail_down (sample_env sample_session))
             (sample_request completed) (sample_world ''pending''))
       = \<lparr>status = 200, payload = JsonReceived\<rparr>"
  using notifier_failure_keeps_completed
          [where env = "mail_down (sample_env sample_session)"
             and req = "sample_request completed"
             and ev = "\<lparr>event_type = completed, data_object = sample_session\<rparr>"
             and w = "sample_world ''pending''" and i = 1 and sv = Index
             and e = "''Connection timeout''"]
  by (simp add: sample_verify sample_find)

theorem notifier_failure_counterexample:
  "js_get (sheet (snd (webhook_stripe (mail_down (sample_env sample_session))
                        (sample_request completed) (sample_world ''pending''))) ! 1)
     ''status'' = Str ''completed''
   \<and> fst (webhook_stripe (mail_down (sample_env sample_session))
             (sample_request completed) (sample_world ''pending''))
       = \<lparr>status = 500, payload = JsonError ''Connection timeout''\<rparr>"
  using webhook_cell
          [where env = "mail_down (sample_env sample_session)"
             and req = "sample_request completed"
             and ev = "\<lparr>event_type = completed, data_object = sample_session\<rparr>"
             and w = "sample_world ''pending''" and i = 1 and sv = Unified and j = 1
             and k = "''status''"]
        webhook_response
          [where sv = Unified and env = "mail_down (sample_env sample_session)"
             and req = "sample_request completed" and w = "sample_world ''pending''"]
  by (simp add: sample_verify sample_find js_get_completed_row event_outcome_def)







section \<open>The claims about initiation\<close>

text \<open>
  C3, as the code has it. In the unified server every checkout session an initiation
  creates, whether or not the request then goes through, is for one line item at the unit
  price the server holds for the product, 2500 for a ticket and 1999 for a book. When the
  request goes through, the pending row it adds carries the \<open>amount_total\<close> the gateway
  reported for that session; when it does not, no row is added. Price fields in the body
  have no effect on anything the three routes do.
\<close>

theorem unit_price_is_server_side:
  "(\<forall>p \<in> set (sessions_since w (snd (create_checkout_session env b w))).
      \<exists>q pt. quantity b = Some q \<and> productType b = Some pt
        \<and> line_items p
            = [\<lparr>unit_amount = (if pt = ''book'' then 1999 else 2500), li_quantity = q\<rparr>])
   \<and> (\<forall>p \<in> set (sessions_since w (snd (create_ticket_checkout_session env b w))).
        \<exists>q. quantity b = Some q
          \<and> line_items p = [\<lparr>unit_amount = 2500, li_quantity = q\<rparr>])
   \<and> (\<forall>p \<in> set (sessions_since w (snd (create_book_checkout_session env b w))).
        \<exists>q. quantity b = Some q
          \<and> line_items p = [\<lparr>unit_amount = 1999, li_quantity = q\<rparr>])
   \<and> (status (fst (create_checkout_session env b w)) = 200 \<longrightarrow>
        (\<exists>q pt. quantity b = Some q \<and> productType b = Some pt
           \<and> initiated_with env (if pt = ''book'' then 1999 else 2500) q w
                (snd (create_checkout_session env b w))))
   \<and> (status (fst (create_ticket_checkout_session env b w)) = 200 \<longrightarrow>
        (\<exists>q. quantity b = Some q
           \<and> initiated_with env 2500 q w (snd (create_ticket_checkout_session env b w))))
   \<and> (status (fst (create_book_checkout_session env b w)) = 200 \<longrightarrow>
        (\<exists>q. quantity b = Some q
           \<and> initiated_with env 1999 q w (snd (create_book_checkout_session env b w))))
   \<and> (status (fst (create_checkout_session env b w)) \<noteq> 200 \<longrightarrow>
        sheet (snd (create_checkout_session env b w)) = sheet w)
   \<and> (status (fst (create_ticket_checkout_session env b w)) \<noteq> 200 \<longrightarrow>
        sheet (snd (create_ticket_checkout_session env b w)) = sheet w)
   \<and> (status (fst (create_book_checkout_session env b w)) \<noteq> 200 \<longrightarrow>
        sheet (snd (create_book_checkout_session env b w)) = sheet w)
   \<and> create_checkout_session env (b\<lparr>ticketPrice := x, bookPrice := y, shippingPrice := z\<rparr>) w
       = create_checkout_session env b w
   \<and> create_ticket_checkout_session env
         (b\<lparr>ticketPrice := x, bookPrice := y, shippingPrice := z\<rparr>) w
       = create_ticket_checkout_session env b w
   \<and> create_book_checkout_session env
         (b\<lparr>ticketPrice := x, bookPrice := y, shippingPrice := z\<rparr>) w
       = create_book_checkout_session env b w"
  by (intro conjI unified_run ticket_run book_run prices_ignored)

theorem unit_price_is_server_side_witness:
  "initiated_with (sample_env sample_session) 2500 2 empty_world
     (snd (create_checkout_session (sample_env sample_session) ticket_body empty_world))
   \<and> map line_items
         (sessions_since empty_world
            (snd (create_checkout_session (sample_env sample_session) ticket_body empty_world)))
       = [[\<lparr>unit_amount = 2500, li_quantity = 2\<rparr>]]
   \<and> status (fst (create_checkout_session (writes_down (sample_env sample_session))
                      ticket_body empty_world)) = 500
   \<and> map line_items
         (sessions_since empty_world
            (snd (create_checkout_session (writes_down (sample_env sample_session))
                    ticket_body empty_world)))
       = [[\<lparr>unit_amount = 2500, li_quantity = 2\<rparr>]]
   \<and> sheet (snd (create_checkout_session (writes_down (sample_env sample_session))
                     ticket_body empty_world)) = sheet empty_world
   \<and> create_checkout_session (sample_env sample_session)
       (ticket_body\<lparr>ticketPrice := Some (1 / 100), bookPrice := None, shippingPrice := None\<rparr>)
       empty_world
     = create_checkout_session (sample_env sample_session) ticket_body empty_world"
proof -
  have run: "create_checkout_session env ticket_body empty_world
      = create_then_add ''checkout session'' env
          (unified_params env ticket_body 2 ''ticket'') (unified_row env ticket_body 2 ''ticket'')
          (Some (unified_orderRef env ''ticket'')) empty_world" for env
    by (simp add: create_checkout_session_def)
  have ok: "status (fst (create_checkout_session (sample_env sample_session) ticket_body
                           empty_world)) = 200"
    by (simp add: run sample_create_then_add)
  have down: "status (fst (create_checkout_session (writes_down (sample_env sample_session))
                             ticket_body empty_world)) = 500"
    by (simp add: run create_then_add_def addToGoogleSheets_def checkout_failed_def Let_def)
  have made: "sessions_since empty_world (snd (create_checkout_session env ticket_body empty_world))
      = [unified_params env ticket_body 2 ''ticket'']" for env
    by (simp add: run create_then_add_sessions)
  show ?thesis
    using unit_price_is_server_side
            [where env = "sample_env sample_session" and b = ticket_body and w = empty_world
               and x = "Some (1 / 100)" and y = None and z = None]
          unit_price_is_server_side
            [where env = "writes_down (sample_env sample_session)" and b = ticket_body
               and w = empty_world]
          ok down
    by (simp add: made)
qed

theorem client_price_counterexample:
  "created_line_items
     (snd (create_checkout_session_index (sample_env sample_session) penny_body empty_world))
     = [[\<lparr>unit_amount = 1, li_quantity = 2\<rparr>]]
   \<and> created_line_items
       (snd (create_checkout_session_index (sample_env sample_session)
               (penny_body\<lparr>ticketPrice := Some 25\<rparr>) empty_world))
     = [[\<lparr>unit_amount = 2500, li_quantity = 2\<rparr>]]
   \<and> js_get (last (sheet (snd (create_checkout_session_index (sample_env sample_session)
                                   penny_body empty_world)))) ''amount_total'' = Num (1 / 50)
   \<and> map_sum id cs_amount_total
       (sessions_create (sample_env sample_session)
          (index_params (sample_env sample_session) penny_body 2 (1 / 100))) = Inr (Some 2)"
proof -
  have run: "create_checkout_session_index (sample_env sample_session) penny_body empty_world
      = create_then_add ''checkout session'' (sample_env sample_session)
          (index_params (sample_env sample_session) penny_body 2 (1 / 100))
          (index_row (sample_env sample_session) penny_body 2 (1 / 100)) None empty_world"
    by (simp add: create_checkout_session_index_def missing_def missing_num_def optional_def)
  have run': "create_checkout_session_index (sample_env sample_session)
        (penny_body\<lparr>ticketPrice := Some 25\<rparr>) empty_world
      = create_then_add ''checkout session'' (sample_env sample_session)
          (index_params (sample_env sample_session) (penny_body\<lparr>ticketPrice := Some 25\<rparr>) 2 25)
          (index_row (sample_env sample_session) (penny_body\<lparr>ticketPrice := Some 25\<rparr>) 2 25)
          None empty_world"
    by (simp add: create_checkout_session_index_def missing_def missing_num_def optional_def)
  have items: "line_items (index_params (sample_env sample_session) penny_body 2 (1 / 100))
      = [\<lparr>unit_amount = 1, li_quantity = 2\<rparr>]"
    "line_items (index_params (sample_env sample_session)
                   (penny_body\<lparr>ticketPrice := Some 25\<rparr>) 2 25)
      = [\<lparr>unit_amount = 2500, li_quantity = 2\<rparr>]"
    by (simp_all add: index_params_def Math_round_simps)
  have total: "js_get (index_row (sample_env sample_session) penny_body 2 (1 / 100) cs)
                 ''amount_total'' = Num (1 / 50)" for cs
    by (simp add: index_row_def js_get_def)
  have reported: "map_sum id cs_amount_total
       (sessions_create (sample_env sample_session)
          (index_params (sample_env sample_session) penny_body 2 (1 / 100))) = Inr (Some 2)"
    by (simp add: items)
  show ?thesis
    by (simp add: run run' sample_create_then_add created_line_items_def items total
          addRow_values_cells reported)
qed

text \<open>
  C6, as the code has it. A book order with a shipping field missing is rejected with
  status 400 before anything else happens, on the unified route, on the book route of the
  unified server and on the book route of \<^verbatim>\<open>index.js\<close>: the world stays as it was. A
  ticket order with shipping fields is not rejected; the fields are ignored, and the
  request runs exactly as it would without them.
\<close>

theorem book_needs_shipping_ticket_ignores_it:
  "(missing (address b) \<or> missing (city b) \<or> missing (postcode b) \<longrightarrow>
      (productType b = Some ''book'' \<longrightarrow>
         status (fst (create_checkout_session env b w)) = 400
         \<and> snd (create_checkout_session env b w) = w)
      \<and> status (fst (create_book_checkout_session env b w)) = 400
      \<and> snd (create_book_checkout_session env b w) = w
      \<and> status (fst (create_book_checkout_session_index env b w)) = 400
      \<and> snd (create_book_checkout_session_index env b w) = w)
   \<and> (productType b = Some ''ticket'' \<longrightarrow>
        create_checkout_session env (b\<lparr>address := a, city := c, postcode := p\<rparr>) w
          = create_checkout_session env b w)
   \<and> create_ticket_checkout_session env (b\<lparr>address := a, city := c, postcode := p\<rparr>) w
       = create_ticket_checkout_session env b w
   \<and> create_checkout_session_index env (b\<lparr>address := a, city := c, postcode := p\<rparr>) w
       = create_checkout_session_index env b w"
  using book_without_shipping [where b = b and env = env and w = w]
        shipping_ignored [where b = b and env = env and w = w and a = a and c = c and p = p]
  by blast

theorem book_needs_shipping_ticket_ignores_it_witness:
  "status (fst (create_checkout_session (sample_env sample_session) book_body_without_postcode
                  empty_world)) = 400
   \<and> snd (create_checkout_session (sample_env sample_session) book_body_without_postcode
             empty_world) = empty_world
   \<and> status (fst (create_book_checkout_session_index (sample_env sample_session)
                      book_body_without_postcode empty_world)) = 400
   \<and> create_checkout_session (sample_env sample_session)
       (ticket_body\<lparr>address := Some ''1 High Street'', city := Some ''Belfast'',
                    postcode := Some ''BT1 1AA''\<rparr>) empty_world
     = create_checkout_session (sample_env sample_session) ticket_body empty_world"
  using book_needs_shipping_ticket_ignores_it
          [where env = "sample_env sample_session" and b = book_body_without_postcode
             and w = empty_world]
        book_needs_shipping_ticket_ignores_it
          [where env = "sample_env sample_session" and b = ticket_body
             and w = empty_world and a = "Some ''1 High Street''" and c = "Some ''Belfast''"
             and p = "Some ''BT1 1AA''"]
  by (simp add: missing_def optional_def)

theorem ticket_with_shipping_counterexample:
  "address ticket_body_with_shipping = Some ''1 High Street''
   \<and> fst (create_checkout_session (sample_env sample_session) ticket_body_with_shipping
             empty_world)
     = \<lparr>status = 200,
        payload = JsonSession ''https://checkout.stripe.com/c/pay/cs_a1'' ''cs_a1''
                    (Some ''TIX-17-k3j9'')\<rparr>
   \<and> length (calls (snd (create_checkout_session (sample_env sample_session)
                            ticket_body_with_shipping empty_world))) = 2
   \<and> js_get (last (sheet (snd (create_checkout_session (sample_env sample_session)
                                   ticket_body_with_shipping empty_world))))
         ''shipping_address'' = Str []"
proof -
  have given: "address ticket_body_with_shipping = Some ''1 High Street''"
    by (simp add: ticket_body_with_shipping_def)
  have run: "create_checkout_session (sample_env sample_session) ticket_body_with_shipping
               empty_world
      = create_then_add ''checkout session'' (sample_env sample_session)
          (unified_params (sample_env sample_session) ticket_body_with_shipping 2 ''ticket'')
          (unified_row (sample_env sample_session) ticket_body_with_shipping 2 ''ticket'')
          (Some ''TIX-17-k3j9'') empty_world"
    by (simp add: create_checkout_session_def unified_orderRef_def)
  have cell: "js_get (addRow_values (unified_row (sample_env sample_session)
                        ticket_body_with_shipping 2 ''ticket'' cs)) ''shipping_address'' = Str []"
    for cs
    by (simp add: addRow_values_def unified_row_def js_get_def js_or_def)
  show ?thesis
    by (simp add: given run sample_create_then_add cell)
qed

end
